theory Spec2Isabelle
  imports Complex_Main
begin

section \<open>JavaScript numbers\<close>

text \<open>
  The program of \<^verbatim>\<open>src/App.jsx\<close> computes with JavaScript numbers. A number is
  modelled as \<open>NaN\<close>, one of the two infinities, or a finite value carried as a real.
  The special values follow IEEE 754 as JavaScript exposes them (\<open>NaN\<close> compares false
  with everything, \<open>Infinity - Infinity\<close> and \<open>0 * Infinity\<close> are \<open>NaN\<close>). Finite
  arithmetic is exact: rounding to 53 bits, overflow to infinity and the sign of zero are
  not part of the model, and a finite value divided by zero takes the sign of the dividend.
\<close>

datatype jsnum = NaN | NInf | Fin real | PInf

fun js_neg :: "jsnum \<Rightarrow> jsnum" where
  "js_neg NaN = NaN"
| "js_neg NInf = PInf"
| "js_neg PInf = NInf"
| "js_neg (Fin a) = Fin (- a)"

fun js_add :: "jsnum \<Rightarrow> jsnum \<Rightarrow> jsnum" where
  "js_add (Fin a) (Fin b) = Fin (a + b)"
| "js_add NaN _ = NaN"
| "js_add _ NaN = NaN"
| "js_add PInf NInf = NaN"
| "js_add NInf PInf = NaN"
| "js_add PInf _ = PInf"
| "js_add _ PInf = PInf"
| "js_add NInf _ = NInf"
| "js_add _ NInf = NInf"

definition js_sub :: "jsnum \<Rightarrow> jsnum \<Rightarrow> jsnum" where
  "js_sub a b = js_add a (js_neg b)"

text \<open>An infinity with the sign of a finite factor; \<open>NaN\<close> when the factor is zero.\<close>

definition signed_inf :: "real \<Rightarrow> jsnum" where
  "signed_inf a = (if a = 0 then NaN else if 0 < a then PInf else NInf)"

fun js_mul :: "jsnum \<Rightarrow> jsnum \<Rightarrow> jsnum" where
  "js_mul (Fin a) (Fin b) = Fin (a * b)"
| "js_mul NaN _ = NaN"
| "js_mul _ NaN = NaN"
| "js_mul (Fin a) PInf = signed_inf a"
| "js_mul (Fin a) NInf = signed_inf (- a)"
| "js_mul PInf (Fin b) = signed_inf b"
| "js_mul NInf (Fin b) = signed_inf (- b)"
| "js_mul PInf PInf = PInf"
| "js_mul NInf NInf = PInf"
| "js_mul PInf NInf = NInf"
| "js_mul NInf PInf = NInf"

fun js_div :: "jsnum \<Rightarrow> jsnum \<Rightarrow> jsnum" where
  "js_div (Fin a) (Fin b) = (if b = 0 then signed_inf a else Fin (a / b))"
| "js_div NaN _ = NaN"
| "js_div _ NaN = NaN"
| "js_div (Fin a) PInf = Fin 0"
| "js_div (Fin a) NInf = Fin 0"
| "js_div PInf (Fin b) = (if 0 \<le> b then PInf else NInf)"
| "js_div NInf (Fin b) = (if 0 \<le> b then NInf else PInf)"
| "js_div PInf PInf = NaN"
| "js_div NInf NInf = NaN"
| "js_div PInf NInf = NaN"
| "js_div NInf PInf = NaN"

text \<open>The relational operators \<^verbatim>\<open><\<close>, \<^verbatim>\<open>>\<close>, \<^verbatim>\<open><=\<close>, \<^verbatim>\<open>>=\<close> and \<^verbatim>\<open>===\<close> on numbers.\<close>

fun js_lt :: "jsnum \<Rightarrow> jsnum \<Rightarrow> bool" where
  "js_lt (Fin a) (Fin b) = (a < b)"
| "js_lt NaN _ = False"
| "js_lt _ NaN = False"
| "js_lt NInf NInf = False"
| "js_lt NInf _ = True"
| "js_lt _ NInf = False"
| "js_lt PInf _ = False"
| "js_lt _ PInf = True"

definition js_gt :: "jsnum \<Rightarrow> jsnum \<Rightarrow> bool" where
  "js_gt a b = js_lt b a"

definition js_le :: "jsnum \<Rightarrow> jsnum \<Rightarrow> bool" where
  "js_le a b = (a \<noteq> NaN \<and> b \<noteq> NaN \<and> \<not> js_lt b a)"

definition js_ge :: "jsnum \<Rightarrow> jsnum \<Rightarrow> bool" where
  "js_ge a b = js_le b a"

definition js_eq :: "jsnum \<Rightarrow> jsnum \<Rightarrow> bool" where
  "js_eq a b = (a \<noteq> NaN \<and> a = b)"

text \<open>\<^verbatim>\<open>Math.max\<close>, \<^verbatim>\<open>Math.round\<close> (halves go up) and \<^verbatim>\<open>Math.sqrt\<close>.\<close>

definition Math_max :: "jsnum \<Rightarrow> jsnum \<Rightarrow> jsnum" where
  "Math_max a b = (if a = NaN \<or> b = NaN then NaN else if js_lt a b then b else a)"

fun Math_round :: "jsnum \<Rightarrow> jsnum" where
  "Math_round (Fin a) = Fin (of_int \<lfloor>a + 1 / 2\<rfloor>)"
| "Math_round x = x"

fun Math_sqrt :: "jsnum \<Rightarrow> jsnum" where
  "Math_sqrt (Fin a) = (if a < 0 then NaN else Fin (sqrt a))"
| "Math_sqrt PInf = PInf"
| "Math_sqrt _ = NaN"

text \<open>A number is truthy unless it is zero or \<open>NaN\<close>.\<close>

definition num_truthy :: "jsnum \<Rightarrow> bool" where
  "num_truthy a = (a \<noteq> NaN \<and> a \<noteq> Fin 0)"

section \<open>Strings\<close>

text \<open>
  Strings are lists of characters. Case conversion and whitespace are modelled on ASCII:
  \<^verbatim>\<open>toLowerCase\<close> maps \<open>A\<close>..\<open>Z\<close> to \<open>a\<close>..\<open>z\<close> and leaves every other character,
  \<^verbatim>\<open>trim\<close> strips space, tab, line feed, vertical tab, form feed and carriage return.
\<close>

definition lower_char :: "char \<Rightarrow> char" where
  "lower_char c =
     (case map_of (zip ''ABCDEFGHIJKLMNOPQRSTUVWXYZ'' ''abcdefghijklmnopqrstuvwxyz'') c of
        Some d \<Rightarrow> d
      | None \<Rightarrow> c)"

definition toLowerCase :: "string \<Rightarrow> string" where
  "toLowerCase s = map lower_char s"

definition is_space :: "char \<Rightarrow> bool" where
  "is_space c = (c \<in> set [CHR '' '', CHR 0x09, CHR 0x0A, CHR 0x0B, CHR 0x0C, CHR 0x0D])"

definition trim :: "string \<Rightarrow> string" where
  "trim s = rev (dropWhile is_space (rev (dropWhile is_space s)))"

definition startsWith :: "string \<Rightarrow> string \<Rightarrow> bool" where
  "startsWith s p = (take (length p) s = p)"

definition endsWith :: "string \<Rightarrow> string \<Rightarrow> bool" where
  "endsWith s e = (length e \<le> length s \<and> drop (length s - length e) s = e)"

text \<open>\<^verbatim>\<open>s.includes(p)\<close>: \<open>p\<close> occurs in \<open>s\<close> as a contiguous substring.\<close>

fun includes_js :: "string \<Rightarrow> string \<Rightarrow> bool" where
  "includes_js [] p = (p = [])"
| "includes_js (c # cs) p = (startsWith (c # cs) p \<or> includes_js cs p)"

text \<open>\<^verbatim>\<open>s.split(sep)[0]\<close> for a non-empty separator: the text before its first occurrence.\<close>

fun split_first :: "string \<Rightarrow> string \<Rightarrow> string" where
  "split_first sep [] = []"
| "split_first sep (c # cs) = (if startsWith (c # cs) sep then [] else c # split_first sep cs)"

text \<open>\<^verbatim>\<open>xs.join(sep)\<close>.\<close>

fun join :: "string \<Rightarrow> string list \<Rightarrow> string" where
  "join sep [] = []"
| "join sep [x] = x"
| "join sep (x # y # ys) = x @ sep @ join sep (y # ys)"

section \<open>Scalar values and conversions\<close>

text \<open>
  A cell of a parsed file is a scalar: empty (\<open>null\<close>), a boolean, a number or a string.
  \<open>undefined\<close>, the value of a missing property or of an array read out of range, is
  \<open>None\<close> of \<open>scalar option\<close>.

  The conversion of a number to its decimal text and of a text to a number belong to the
  JavaScript engine, not to this program; they are the two fields of \<open>js_engine\<close>, and
  every function that converts takes the engine as its first argument.
\<close>

datatype scalar = Null | Bool bool | Num jsnum | Str string

record js_engine =
  NumberToString :: "jsnum \<Rightarrow> string"
  StringToNumber :: "string \<Rightarrow> jsnum"

text \<open>Truthiness, as \<^verbatim>\<open>||\<close> and \<^verbatim>\<open>if\<close> test it.\<close>

fun truthy :: "scalar option \<Rightarrow> bool" where
  "truthy None = False"
| "truthy (Some Null) = False"
| "truthy (Some (Bool b)) = b"
| "truthy (Some (Num n)) = num_truthy n"
| "truthy (Some (Str s)) = (s \<noteq> [])"

text \<open>\<^verbatim>\<open>String(v)\<close> and \<^verbatim>\<open>Number(v)\<close>.\<close>

fun String_js :: "js_engine \<Rightarrow> scalar option \<Rightarrow> string" where
  "String_js E None = ''undefined''"
| "String_js E (Some Null) = ''null''"
| "String_js E (Some (Bool b)) = (if b then ''true'' else ''false'')"
| "String_js E (Some (Num n)) = NumberToString E n"
| "String_js E (Some (Str s)) = s"

fun Number_js :: "js_engine \<Rightarrow> scalar option \<Rightarrow> jsnum" where
  "Number_js E None = NaN"
| "Number_js E (Some Null) = Fin 0"
| "Number_js E (Some (Bool b)) = (if b then Fin 1 else Fin 0)"
| "Number_js E (Some (Num n)) = n"
| "Number_js E (Some (Str s)) = StringToNumber E s"

text \<open>\<^verbatim>\<open>v || d\<close> and \<^verbatim>\<open>v ?? d\<close> with a scalar default, and \<^verbatim>\<open>n || 0\<close> on a number.\<close>

definition or_else :: "scalar option \<Rightarrow> scalar \<Rightarrow> scalar option" where
  "or_else v d = (if truthy v then v else Some d)"

fun nullish_or :: "scalar option \<Rightarrow> scalar \<Rightarrow> scalar" where
  "nullish_or None d = d"
| "nullish_or (Some Null) d = d"
| "nullish_or (Some v) d = v"

definition num_or_zero :: "jsnum \<Rightarrow> jsnum" where
  "num_or_zero n = (if num_truthy n then n else Fin 0)"

text \<open>An engine for the examples of this theory, whose numbers are integers: an integer
  prints as its decimal digits and a text of decimal digits reads as its value. Outside
  that fragment it answers with the empty text and with \<open>NaN\<close>. No theorem about the
  program depends on it: each is proved for an arbitrary engine.\<close>

definition digit_char :: "nat \<Rightarrow> char" where
  "digit_char d = ''0123456789'' ! (d mod 10)"

fun digits_of :: "nat \<Rightarrow> nat \<Rightarrow> string" where
  "digits_of 0 n = []"
| "digits_of (Suc fuel) n =
     (if n < 10 then [digit_char n]
      else digits_of fuel (n div 10) @ [digit_char (n mod 10)])"

definition show_nat :: "nat \<Rightarrow> string" where
  "show_nat n = digits_of (Suc n) n"

definition digit_val :: "char \<Rightarrow> nat" where
  "digit_val c = of_char c - 48"

definition is_digit :: "char \<Rightarrow> bool" where
  "is_digit c = (c \<in> set ''0123456789'')"

definition read_nat :: "string \<Rightarrow> nat" where
  "read_nat s = foldl (\<lambda>acc c. 10 * acc + digit_val c) 0 s"

fun example_NumberToString :: "jsnum \<Rightarrow> string" where
  "example_NumberToString NaN = ''NaN''"
| "example_NumberToString PInf = ''Infinity''"
| "example_NumberToString NInf = ''-Infinity''"
| "example_NumberToString (Fin a) =
     (if a = of_int \<lfloor>a\<rfloor>
      then (if a < 0 then ''-'' @ show_nat (nat (- \<lfloor>a\<rfloor>)) else show_nat (nat \<lfloor>a\<rfloor>))
      else [])"

definition example_StringToNumber :: "string \<Rightarrow> jsnum" where
  "example_StringToNumber s =
     (let t = trim s in
      if t = [] then Fin 0
      else if list_all is_digit t then Fin (of_nat (read_nat t))
      else NaN)"

definition example_engine :: js_engine where
  "example_engine =
     \<lparr>NumberToString = example_NumberToString, StringToNumber = example_StringToNumber\<rparr>"

section \<open>The data model\<close>

text \<open>
  The records of the program's state. A cost item is the object built by \<^verbatim>\<open>handleCost\<close>;
  \<^verbatim>\<open>itemType\<close> is one of the two strings \<^verbatim>\<open>"ReCert"\<close> and \<^verbatim>\<open>"New"\<close>. A sales
  aggregate is a value of \<^verbatim>\<open>salesMap\<close>, the object \<^verbatim>\<open>byItem\<close> of \<^verbatim>\<open>handleSales\<close>;
  the map holds the object's own properties, and \<open>obj_read\<close> below adds the members
  the object inherits. Fields that two records share by name carry a prefix in the later
  record.
\<close>

datatype item_type = New | ReCert

record cost_item =
  fullItem :: string
  itemCode :: string
  itemType :: item_type
  unitPrice :: jsnum
  unitCost :: jsnum
  Quantity :: jsnum
  profitPerUnit :: jsnum
  profitMargin :: jsnum
  totalProfit :: jsnum
  totalRevenue :: jsnum
  totalCost :: jsnum

record sales_aggregate =
  sa_item :: string
  sa_description :: string
  totalQtySold :: jsnum
  sa_totalRevenue :: jsnum

type_synonym sales_map = "string \<rightharpoonup> sales_aggregate"

record thresholds =
  slowCost :: jsnum
  deadCost :: jsnum
  slowDays :: jsnum
  targetMargin :: jsnum
  orderingCost :: jsnum
  holdingCostRate :: jsnum

definition default_thresholds :: thresholds where
  "default_thresholds =
     \<lparr>slowCost = Fin 400, deadCost = Fin 200, slowDays = Fin 180, targetMargin = Fin 0.30,
      orderingCost = Fin 50, holdingCostRate = Fin 0.25\<rparr>"

record derived_item = cost_item +
  annualSales :: jsnum
  dailySales :: jsnum
  daysOfInventory :: jsnum
  reorderPoint :: jsnum
  daysUntilStockout :: jsnum
  eoq :: jsnum
  priceDelta :: jsnum
  annualImpact :: jsnum

section \<open>The derived-metrics engine: \<^verbatim>\<open>computed\<close>\<close>

text \<open>
  \<^verbatim>\<open>salesMap\<close> and \<^verbatim>\<open>byItem\<close> are plain objects (\<^verbatim>\<open>{}\<close>) used as dictionaries, so
  \<^verbatim>\<open>obj[key]\<close> finds an own property or else a member inherited from
  \<^verbatim>\<open>Object.prototype\<close>, and is \<open>undefined\<close> only when there is neither. The inherited
  members are the engine's, not this program's; their names are the standard ones. Each
  is a function, or for \<^verbatim>\<open>__proto__\<close> the prototype object itself: truthy, and without a
  numeric \<^verbatim>\<open>totalQtySold\<close>.
\<close>

definition object_prototype_keys :: "string list" where
  "object_prototype_keys =
     [''constructor'', ''hasOwnProperty'', ''isPrototypeOf'', ''propertyIsEnumerable'',
      ''toLocaleString'', ''toString'', ''valueOf'', ''__proto__'', ''__defineGetter__'',
      ''__defineSetter__'', ''__lookupGetter__'', ''__lookupSetter__'']"

datatype 'a member = Own 'a | Inherited

definition obj_read :: "(string \<rightharpoonup> 'a) \<Rightarrow> string \<Rightarrow> 'a member option" where
  "obj_read ob k =
     (case ob k of
        Some v \<Rightarrow> Some (Own v)
      | None \<Rightarrow> if k \<in> set object_prototype_keys then Some Inherited else None)"

text \<open>
  \<^verbatim>\<open>salesMap[code] || salesMap[`${code}-New`] || salesMap[`${code}-ReCert`] ||
  salesMap[item.fullItem] || null\<close>: an aggregate is an object and an inherited member is
  a function or an object, all truthy, so \<^verbatim>\<open>||\<close> passes on exactly when the read is
  \<open>undefined\<close>.
\<close>

definition salesLookup :: "sales_map \<Rightarrow> cost_item \<Rightarrow> sales_aggregate member option" where
  "salesLookup salesMap item =
     (let code = itemCode item in
      case obj_read salesMap code of Some s \<Rightarrow> Some s | None \<Rightarrow>
      (case obj_read salesMap (code @ ''-New'') of Some s \<Rightarrow> Some s | None \<Rightarrow>
      (case obj_read salesMap (code @ ''-ReCert'') of Some s \<Rightarrow> Some s | None \<Rightarrow>
       obj_read salesMap (fullItem item))))"

text \<open>The local constants \<^verbatim>\<open>leadTimeDays\<close> and \<^verbatim>\<open>safetyStock\<close> of the map callback.\<close>

definition leadTimeDays :: "cost_item \<Rightarrow> jsnum" where
  "leadTimeDays item = (if itemType item = ReCert then Fin 28 else Fin 21)"

definition safetyStock :: "jsnum \<Rightarrow> jsnum \<Rightarrow> jsnum" where
  "safetyStock dailySales' leadTimeDays' =
     js_mul dailySales' (Math_max (Fin 7) (Math_round (js_div leadTimeDays' (Fin 2))))"

text \<open>The callback of \<^verbatim>\<open>costData.map\<close>. The fields of a cost item are numbers, on
  which \<^verbatim>\<open>Number\<close> is the identity. When \<^verbatim>\<open>s\<close> is an inherited member,
  \<^verbatim>\<open>s.totalQtySold\<close> is \<open>undefined\<close> (or the \<open>NaN\<close> that \<^verbatim>\<open>handleSales\<close> left on
  the member), and \<^verbatim>\<open>Number\<close> of either is \<open>NaN\<close>.\<close>

definition deriveItem :: "thresholds \<Rightarrow> sales_map \<Rightarrow> cost_item \<Rightarrow> derived_item" where
  "deriveItem th salesMap item =
     (let s = salesLookup salesMap item;
          annualSales' =
            (case s of
               Some (Own a) \<Rightarrow> totalQtySold a
             | Some Inherited \<Rightarrow> NaN
             | None \<Rightarrow> Fin 0);
          dailySales' = js_div annualSales' (Fin 365);
          daysOfInventory' =
            (if js_gt dailySales' (Fin 0) then js_div (Quantity item) dailySales' else PInf);
          leadTimeDays' = leadTimeDays item;
          safetyStock' = safetyStock dailySales' leadTimeDays';
          reorderPoint' = js_add (js_mul dailySales' leadTimeDays') safetyStock';
          daysUntilStockout' =
            (if js_gt dailySales' (Fin 0) then js_div (Quantity item) dailySales' else PInf);
          holdingCost = js_mul (unitCost item) (holdingCostRate th);
          eoq' =
            (if js_gt holdingCost (Fin 0) \<and> js_gt annualSales' (Fin 0)
             then Math_round (Math_sqrt
                    (js_div (js_mul (js_mul (Fin 2) annualSales') (orderingCost th)) holdingCost))
             else Math_round (js_mul (js_div annualSales' (Fin 12)) (Fin 3)));
          targetPrice =
            (if js_gt (unitCost item) (Fin 0)
             then js_div (unitCost item) (js_sub (Fin 1) (targetMargin th)) else Fin 0);
          priceDelta' = Math_max (Fin 0) (js_sub targetPrice (unitPrice item));
          annualImpact' = js_mul priceDelta' annualSales'
      in cost_item.extend item
           \<lparr>annualSales = annualSales', dailySales = dailySales',
            daysOfInventory = daysOfInventory', reorderPoint = reorderPoint',
            daysUntilStockout = daysUntilStockout', eoq = eoq',
            priceDelta = priceDelta', annualImpact = annualImpact'\<rparr>)"

text \<open>
  \<^verbatim>\<open>Array.prototype.sort\<close> with a comparator is stable; it is modelled by a stable
  insertion sort that moves \<open>x\<close> behind \<open>y\<close> exactly when the comparator is positive.
\<close>

fun insert_by :: "('a \<Rightarrow> 'a \<Rightarrow> jsnum) \<Rightarrow> 'a \<Rightarrow> 'a list \<Rightarrow> 'a list" where
  "insert_by cmp x [] = [x]"
| "insert_by cmp x (y # ys) =
     (if js_gt (cmp x y) (Fin 0) then y # insert_by cmp x ys else x # y # ys)"

definition sort_js :: "('a \<Rightarrow> 'a \<Rightarrow> jsnum) \<Rightarrow> 'a list \<Rightarrow> 'a list" where
  "sort_js cmp xs = foldr (insert_by cmp) xs []"

record computed_result =
  items :: "derived_item list"
  slowMovers :: "derived_item list"
  deadStock :: "derived_item list"
  criticalStockouts :: "derived_item list"
  warningStockouts :: "derived_item list"
  priceOpps :: "derived_item list"

text \<open>\<^verbatim>\<open>computed\<close> is \<^verbatim>\<open>null\<close> (\<open>None\<close>) while no cost data is loaded.\<close>

definition computed :: "thresholds \<Rightarrow> cost_item list \<Rightarrow> sales_map \<Rightarrow> computed_result option" where
  "computed th costData salesMap =
     (if costData = [] then None
      else
        let items' = map (deriveItem th salesMap) costData;
            slowMovers' =
              sort_js (\<lambda>a b. js_sub (totalCost b) (totalCost a))
                (filter (\<lambda>it. js_gt (totalCost it) (slowCost th)
                             \<and> (js_gt (daysOfInventory it) (slowDays th)
                                  \<or> js_eq (annualSales it) (Fin 0))
                             \<and> js_gt (Quantity it) (Fin 0)) items');
            deadStock' =
              sort_js (\<lambda>a b. js_sub (totalCost b) (totalCost a))
                (filter (\<lambda>it. js_eq (annualSales it) (Fin 0)
                             \<and> js_gt (totalCost it) (deadCost th)
                             \<and> js_gt (Quantity it) (Fin 0)) items');
            criticalStockouts' =
              sort_js (\<lambda>a b. js_sub (daysUntilStockout a) (daysUntilStockout b))
                (filter (\<lambda>it. js_le (daysUntilStockout it) (Fin 30)
                             \<and> \<not> js_eq (daysUntilStockout it) PInf
                             \<and> js_gt (totalCost it) (Fin 1000)) items');
            warningStockouts' =
              sort_js (\<lambda>a b. js_sub (daysUntilStockout a) (daysUntilStockout b))
                (filter (\<lambda>it. js_gt (daysUntilStockout it) (Fin 30)
                             \<and> js_le (daysUntilStockout it) (Fin 60)
                             \<and> js_gt (totalCost it) (Fin 500)) items');
            priceOpps' =
              sort_js (\<lambda>a b. js_sub (annualImpact b) (annualImpact a))
                (filter (\<lambda>it. js_gt (priceDelta it) (Fin 0)
                             \<and> js_gt (annualSales it) (Fin 0)
                             \<and> js_gt (totalRevenue it) (Fin 5000)) items')
        in Some \<lparr>items = items', slowMovers = slowMovers', deadStock = deadStock',
                 criticalStockouts = criticalStockouts', warningStockouts = warningStockouts',
                 priceOpps = priceOpps'\<rparr>)"

section \<open>Row objects and the field picker\<close>

text \<open>
  A row object is the list of its own properties in enumeration order, as
  \<^verbatim>\<open>Object.entries\<close> and \<^verbatim>\<open>Object.keys\<close> deliver them: keys that are array indices
  (canonical decimal numerals below \<open>2^32 - 1\<close>) first, in ascending order, then the
  other keys in the order they were created. A property read sees own properties only;
  none of the aliases the program passes to \<^verbatim>\<open>pick\<close> names an inherited property.
  The values are scalars: the reader never stores \<open>undefined\<close> under a key.
\<close>

type_synonym obj = "(string \<times> scalar) list"

definition is_array_index :: "string \<Rightarrow> bool" where
  "is_array_index k =
     (k \<noteq> [] \<and> list_all is_digit k \<and> (k = ''0'' \<or> hd k \<noteq> CHR ''0'')
      \<and> read_nat k < 4294967295)"

fun insert_index :: "string \<Rightarrow> scalar \<Rightarrow> obj \<Rightarrow> obj" where
  "insert_index k v [] = [(k, v)]"
| "insert_index k v ((k', v') # rest) =
     (if is_array_index k' \<and> read_nat k' < read_nat k
      then (k', v') # insert_index k v rest
      else (k, v) # (k', v') # rest)"

text \<open>Creating or overwriting one property: an existing key keeps its place.\<close>

definition obj_put :: "obj \<Rightarrow> string \<times> scalar \<Rightarrow> obj" where
  "obj_put l kv =
     (case kv of (k, v) \<Rightarrow>
        if k \<in> set (map fst l) then map (\<lambda>(k', v'). if k' = k then (k', v) else (k', v')) l
        else if is_array_index k then insert_index k v l
        else l @ [(k, v)])"

definition fromEntries :: "(string \<times> scalar) list \<Rightarrow> obj" where
  "fromEntries es = foldl obj_put [] es"

definition lowerKeys :: "obj \<Rightarrow> obj" where
  "lowerKeys ob = fromEntries (map (\<lambda>(k, v). (trim (toLowerCase k), v)) ob)"

text \<open>The first loop of \<^verbatim>\<open>pick\<close>: the aliases in order, each looked up as a key.\<close>

fun pick_exact :: "obj \<Rightarrow> string list \<Rightarrow> scalar option" where
  "pick_exact l [] = None"
| "pick_exact l (k # ks) =
     (case map_of l (trim (toLowerCase k)) of Some v \<Rightarrow> Some v | None \<Rightarrow> pick_exact l ks)"

text \<open>The second loop: the keys in order, each tested against every alias.\<close>

fun pick_contains :: "obj \<Rightarrow> string list \<Rightarrow> string list \<Rightarrow> scalar option" where
  "pick_contains l keys [] = None"
| "pick_contains l keys (k # rest) =
     (if list_ex (\<lambda>cand. includes_js k (trim (toLowerCase cand))) keys then map_of l k
      else pick_contains l keys rest)"

definition pick :: "obj \<Rightarrow> string list \<Rightarrow> scalar option" where
  "pick ob keys =
     (let l = lowerKeys ob in
      case pick_exact l keys of Some v \<Rightarrow> Some v | None \<Rightarrow> pick_contains l keys (map fst l))"

section \<open>The header resolver\<close>

text \<open>\<^verbatim>\<open>arr.indexOf(x)\<close>, with \<open>-1\<close> for a value that does not occur.\<close>

fun indexOf :: "'a list \<Rightarrow> 'a \<Rightarrow> int" where
  "indexOf [] x = - 1"
| "indexOf (y # ys) x =
     (if y = x then 0 else (let i = indexOf ys x in if i = - 1 then - 1 else i + 1))"

fun findCol_exact :: "string list \<Rightarrow> string list \<Rightarrow> int" where
  "findCol_exact lower [] = - 1"
| "findCol_exact lower (c # cs) =
     (let i = indexOf lower (toLowerCase c) in if i \<noteq> - 1 then i else findCol_exact lower cs)"

fun findCol_contains :: "string list \<Rightarrow> string list \<Rightarrow> int \<Rightarrow> int" where
  "findCol_contains candidates [] i = - 1"
| "findCol_contains candidates (h # hs) i =
     (if list_ex (\<lambda>c. includes_js h (toLowerCase c)) candidates then i
      else findCol_contains candidates hs (i + 1))"

definition findCol :: "string list \<Rightarrow> string list \<Rightarrow> int" where
  "findCol headerArr candidates =
     (let lower = map toLowerCase headerArr;
          i = findCol_exact lower candidates
      in if i \<noteq> - 1 then i else findCol_contains candidates lower 0)"

text \<open>
  A sheet is the grid that \<^verbatim>\<open>XLSX.utils.sheet_to_json\<close> with \<^verbatim>\<open>header: 1\<close> returns:
  a list of rows, each a list of cells; an empty cell is \<open>Null\<close>. Both calls of
  \<^verbatim>\<open>sheet_to_json\<close> in a handler are taken to see the same rows, numbered from the
  first row of the sheet: the model covers a sheet whose used range starts at its first
  row. (For a used range that starts lower, \<^verbatim>\<open>range: hdr\<close> counts from the top of the
  sheet while \<^verbatim>\<open>findHeaderRow\<close> counts from the top of the range.)
  \<^verbatim>\<open>hits\<close> counts the expected headers found among the lower-cased cells of a row.
\<close>

type_synonym grid = "scalar list list"

definition header_hits :: "js_engine \<Rightarrow> string list \<Rightarrow> scalar list \<Rightarrow> nat" where
  "header_hits E expectedHeaders row =
     (let r = map (\<lambda>x. toLowerCase (String_js E (Some (nullish_or (Some x) (Str []))))) row
      in length (filter (\<lambda>h. toLowerCase h \<in> set r) expectedHeaders))"

definition header_threshold :: "string list \<Rightarrow> int" where
  "header_threshold expectedHeaders = \<lceil>real (length expectedHeaders) * 0.5\<rceil>"

fun findHeaderRow_loop :: "js_engine \<Rightarrow> string list \<Rightarrow> grid \<Rightarrow> nat \<Rightarrow> nat" where
  "findHeaderRow_loop E expectedHeaders [] i = 0"
| "findHeaderRow_loop E expectedHeaders (row # rest) i =
     (if header_threshold expectedHeaders \<le> int (header_hits E expectedHeaders row) then i
      else findHeaderRow_loop E expectedHeaders rest (Suc i))"

definition findHeaderRow :: "js_engine \<Rightarrow> grid \<Rightarrow> string list \<Rightarrow> nat" where
  "findHeaderRow E rows expectedHeaders =
     findHeaderRow_loop E expectedHeaders (take (min (length rows) 30) rows) 0"

section \<open>Files, state and the four upload handlers\<close>

text \<open>
  The program holds four datasets in React state, each replaced as a whole by its handler.
  Decoding is done by two libraries outside this repository, so a file is its name together
  with what each decoder returns for its bytes: \<open>papa_rows\<close> is the result of
  \<^verbatim>\<open>parseCSV\<close> (the row objects, typed by \<^verbatim>\<open>dynamicTyping\<close>) and \<open>sheet_rows\<close> the
  grid of the first sheet of \<^verbatim>\<open>readWorkbook\<close>; \<open>None\<close> is a decoder that throws.
  An error leaves the datasets as they were, so a handler returns either the error or the
  new state. The status line shown to the user is not a dataset and is left out.
\<close>

record customer_total =
  customer :: string
  ct_totalRevenue :: jsnum

record supplier_total =
  supplier :: string
  st_totalCost :: jsnum
  totalQuantity :: jsnum

text \<open>\<open>li_date\<close> is \<open>None\<close> both for a \<^verbatim>\<open>date\<close> property that is \<open>undefined\<close> and for
  an object without that property.\<close>

record supplier_line =
  li_supplier :: string
  li_item :: string
  li_totalCost :: jsnum
  li_quantity :: jsnum
  li_date :: "scalar option"

record supplier_data =
  suppliers :: "supplier_total list"
  lineItems :: "supplier_line list"

record app_state =
  costData :: "cost_item list"
  salesMap :: sales_map
  customerData :: "customer_total list"
  supplierData :: supplier_data

record upload_file =
  name :: string
  papa_rows :: "obj list option"
  sheet_rows :: "grid option"

datatype ingest_error = FormatError string | ParseError

definition ensureExt :: "upload_file \<Rightarrow> string list \<Rightarrow> ingest_error option" where
  "ensureExt f allowed =
     (if list_ex (\<lambda>e. endsWith (toLowerCase (name f)) e) allowed then None
      else Some (FormatError
             (''Expected '' @ join '', '' allowed @ '' but got '' @ [CHR 0x22] @ name f
              @ [CHR 0x22])))"

text \<open>The regular expressions of the handlers, all case-insensitive and over ASCII.\<close>

definition is_total_label :: "string \<Rightarrow> bool" where
  "is_total_label s = startsWith (toLowerCase s) ''total - ''"

definition strip_total :: "string \<Rightarrow> string" where
  "strip_total s = (if is_total_label s then drop 8 s else s)"

definition is_recert :: "string \<Rightarrow> bool" where
  "is_recert s = includes_js (toLowerCase s) ''recert''"

definition is_intercompany_customer :: "string \<Rightarrow> bool" where
  "is_intercompany_customer s =
     (includes_js (toLowerCase s) ''ic-'' \<or> includes_js (toLowerCase s) ''intercompany''
      \<or> includes_js (toLowerCase s) ''inter-company'')"

definition is_internal_supplier :: "string \<Rightarrow> bool" where
  "is_internal_supplier s =
     (includes_js (toLowerCase s) ''internal'' \<or> includes_js (toLowerCase s) ''intercompany'')"

text \<open>\<^verbatim>\<open>v != null\<close>.\<close>

fun not_nullish :: "scalar option \<Rightarrow> bool" where
  "not_nullish None = False"
| "not_nullish (Some Null) = False"
| "not_nullish (Some v) = True"

subsection \<open>Cost\<close>

definition costRow :: "js_engine \<Rightarrow> obj \<Rightarrow> cost_item" where
  "costRow E row =
     (let fullItem' = String_js E (or_else (pick row [''Item'']) (Str []));
          unitPrice' = num_or_zero (Number_js E (pick row [''Average Item Rate'']));
          unitCost' = num_or_zero (Number_js E (pick row [''Average of Est. Unit Cost'']));
          qty = num_or_zero (Number_js E (pick row [''Quantity'', ''Qty'']));
          profitPerUnit' =
            (if js_gt unitPrice' (Fin 0) then js_sub unitPrice' unitCost' else Fin 0);
          profitMargin' =
            (if js_gt unitPrice' (Fin 0)
             then js_mul (js_div (js_sub unitPrice' unitCost') unitPrice') (Fin 100)
             else Fin 0)
      in \<lparr>fullItem = fullItem',
          itemCode = (if fullItem' \<noteq> [] then split_first '' : '' fullItem' else []),
          itemType = (if is_recert fullItem' then ReCert else New),
          unitPrice = unitPrice', unitCost = unitCost', Quantity = qty,
          profitPerUnit = profitPerUnit', profitMargin = profitMargin',
          totalProfit = js_mul profitPerUnit' qty,
          totalRevenue = js_mul unitPrice' qty,
          totalCost = js_mul unitCost' qty\<rparr>)"

definition handleCost :: "js_engine \<Rightarrow> upload_file \<Rightarrow> app_state \<Rightarrow> ingest_error + app_state" where
  "handleCost E f st =
     (case ensureExt f [''.csv''] of
        Some e \<Rightarrow> Inl e
      | None \<Rightarrow>
        (case papa_rows f of
           None \<Rightarrow> Inl ParseError
         | Some rows \<Rightarrow>
           Inr (st\<lparr>costData :=
                  map (costRow E)
                    (filter (\<lambda>row. not_nullish (pick row [''Average Item Rate''])
                                  \<and> not_nullish (pick row [''Average of Est. Unit Cost'']))
                       rows)\<rparr>)))"

subsection \<open>Sales\<close>

text \<open>
  The body of both accumulation loops, from the four values read off a row:
  \<^verbatim>\<open>if (!byItem[item]) byItem[item] = {...}\<close>, then the two \<^verbatim>\<open>+=\<close> on
  \<^verbatim>\<open>byItem[item]\<close>. When \<^verbatim>\<open>byItem[item]\<close> is an inherited member no aggregate is
  created and the additions land on that member, so \<^verbatim>\<open>byItem\<close> keeps its own properties.
\<close>

definition salesAccumulate ::
  "string \<Rightarrow> jsnum \<Rightarrow> jsnum \<Rightarrow> string \<Rightarrow> sales_map \<Rightarrow> sales_map" where
  "salesAccumulate item qty revenue desc byItem =
     (if item \<noteq> [] \<and> js_gt qty (Fin 0) \<and> item \<noteq> ''Inventory Item''
      then
        let byItem' =
              (case obj_read byItem item of
                 None \<Rightarrow> byItem(item \<mapsto> \<lparr>sa_item = item, sa_description = desc,
                                           totalQtySold = Fin 0, sa_totalRevenue = Fin 0\<rparr>)
               | Some _ \<Rightarrow> byItem)
        in (case byItem' item of
              Some cur \<Rightarrow>
                byItem'(item \<mapsto> cur\<lparr>totalQtySold := js_add (totalQtySold cur) qty,
                                         sa_totalRevenue := js_add (sa_totalRevenue cur) revenue\<rparr>)
            | None \<Rightarrow> byItem')
      else byItem)"

definition salesRowCSV :: "js_engine \<Rightarrow> sales_map \<Rightarrow> obj \<Rightarrow> sales_map" where
  "salesRowCSV E byItem row =
     (let item = trim (String_js E
                   (or_else (pick row [''Item'', ''Inventory Item'', ''Item Name'']) (Str [])));
          qty = num_or_zero (Number_js E
                   (pick row [''Qty'', ''QtySold'', ''Quantity'', ''Quantity Sold'']));
          revenue = num_or_zero (Number_js E
                   (pick row [''TotalRevenue'', ''Amount'', ''Total'', ''Net Amount'',
                              ''Sales Amount'']));
          desc = String_js E
                   (or_else (pick row [''Description'', ''ItemDesc'', ''Name'', ''Memo'']) (Str []))
      in salesAccumulate item qty revenue desc byItem)"

text \<open>\<^verbatim>\<open>r[i]\<close> on a grid row: \<open>undefined\<close> out of range, and so for the index \<open>-1\<close>.\<close>

definition cell_at :: "scalar list \<Rightarrow> int \<Rightarrow> scalar option" where
  "cell_at r i = (if 0 \<le> i \<and> nat i < length r then Some (r ! nat i) else None)"

text \<open>The second \<^verbatim>\<open>sheet_to_json\<close>, with \<^verbatim>\<open>range: hdr\<close> and \<^verbatim>\<open>defval: ""\<close>: the rows
  from the header row on, an empty cell read as the empty string. Then the header labels.\<close>

definition sheet_from :: "nat \<Rightarrow> grid \<Rightarrow> grid" where
  "sheet_from hdr rows = map (map (\<lambda>c. nullish_or (Some c) (Str []))) (drop hdr rows)"

definition header_of :: "js_engine \<Rightarrow> grid \<Rightarrow> string list" where
  "header_of E raw =
     map (\<lambda>h. trim (String_js E (or_else (Some h) (Str []))))
       (case raw of [] \<Rightarrow> [] | r # _ \<Rightarrow> r)"

definition salesRowXLS ::
  "js_engine \<Rightarrow> int \<Rightarrow> int \<Rightarrow> int \<Rightarrow> int \<Rightarrow> sales_map \<Rightarrow> scalar list \<Rightarrow> sales_map" where
  "salesRowXLS E iItem iDesc iQty iRev byItem r =
     (let item = trim (String_js E (or_else (cell_at r iItem) (Str [])));
          qty = Number_js E (or_else (cell_at r iQty) (Num (Fin 0)));
          revenue = Number_js E (or_else (cell_at r iRev) (Num (Fin 0)));
          desc = String_js E (or_else (cell_at r iDesc) (Str []))
      in salesAccumulate item qty revenue desc byItem)"

definition handleSales :: "js_engine \<Rightarrow> upload_file \<Rightarrow> app_state \<Rightarrow> ingest_error + app_state" where
  "handleSales E f st =
     (if endsWith (toLowerCase (name f)) ''.csv'' then
        (case papa_rows f of
           None \<Rightarrow> Inl ParseError
         | Some rows \<Rightarrow> Inr (st\<lparr>salesMap := foldl (salesRowCSV E) Map.empty rows\<rparr>))
      else
        (case sheet_rows f of
           None \<Rightarrow> Inl ParseError
         | Some ws \<Rightarrow>
           let hdr = findHeaderRow E ws
                       [''item'', ''qty'', ''quantity'', ''amount'', ''total'', ''description''];
               raw = sheet_from hdr ws;
               header = header_of E raw;
               iItem = findCol header [''Item'', ''Inventory Item'', ''Item Name'', ''Product''];
               iDesc = findCol header [''Description'', ''ItemDesc'', ''Name'', ''Memo''];
               iQty = findCol header [''Qty'', ''QtySold'', ''Quantity'', ''Quantity Sold''];
               iRev = findCol header [''TotalRevenue'', ''Amount'', ''Total'', ''Net Amount'',
                                      ''Sales Amount'']
           in Inr (st\<lparr>salesMap :=
                     foldl (salesRowXLS E iItem iDesc iQty iRev) Map.empty (tl raw)\<rparr>)))"

subsection \<open>Customers\<close>

text \<open>Both branches of \<^verbatim>\<open>handleCustomer\<close> map their rows to a label and an amount and
  then run the same chain of \<^verbatim>\<open>filter\<close>, \<^verbatim>\<open>map\<close>, \<^verbatim>\<open>filter\<close> and \<^verbatim>\<open>sort\<close>.\<close>

definition customerTotals :: "(string \<times> jsnum) list \<Rightarrow> customer_total list" where
  "customerTotals rs =
     sort_js (\<lambda>a b. js_sub (ct_totalRevenue b) (ct_totalRevenue a))
       (filter (\<lambda>c. \<not> is_intercompany_customer (customer c))
          (map (\<lambda>(label, amount). \<lparr>customer = strip_total label, ct_totalRevenue = amount\<rparr>)
             (filter (\<lambda>(label, amount). is_total_label label \<and> js_gt amount (Fin 0)) rs)))"

definition handleCustomer ::
  "js_engine \<Rightarrow> upload_file \<Rightarrow> app_state \<Rightarrow> ingest_error + app_state" where
  "handleCustomer E f st =
     (if endsWith (toLowerCase (name f)) ''.csv'' then
        (case papa_rows f of
           None \<Rightarrow> Inl ParseError
         | Some rows \<Rightarrow>
           Inr (st\<lparr>customerData :=
                  customerTotals
                    (map (\<lambda>r. (String_js E (or_else (pick r [''Customer'', ''Name'']) (Str [])),
                               Number_js E
                                 (or_else (pick r [''Total'', ''Amount'', ''Net Amount'',
                                                   ''TotalRevenue'']) (Num (Fin 0)))))
                       rows)\<rparr>))
      else
        (case sheet_rows f of
           None \<Rightarrow> Inl ParseError
         | Some ws \<Rightarrow>
           let hdr = findHeaderRow E ws [''customer'', ''amount'', ''total'', ''net amount''];
               raw = sheet_from hdr ws;
               header = header_of E raw;
               iCustomer = findCol header [''Customer'', ''Name''];
               iAmount = findCol header [''Total'', ''Amount'', ''Net Amount'', ''TotalRevenue'']
           in Inr (st\<lparr>customerData :=
                     customerTotals
                       (map (\<lambda>r. (String_js E (or_else (cell_at r iCustomer) (Str [])),
                                  Number_js E (or_else (cell_at r iAmount) (Num (Fin 0)))))
                          (tl raw))\<rparr>)))"

subsection \<open>Suppliers\<close>

text \<open>The delimited-text branch: two chains over the same rows.\<close>

definition supplierTotalsCSV :: "js_engine \<Rightarrow> obj list \<Rightarrow> supplier_total list" where
  "supplierTotalsCSV E rows =
     sort_js (\<lambda>a b. js_sub (st_totalCost b) (st_totalCost a))
       (filter (\<lambda>s. js_gt (st_totalCost s) (Fin 0) \<and> \<not> is_internal_supplier (supplier s))
          (map (\<lambda>(vendor, total, qty).
                  \<lparr>supplier = strip_total vendor, st_totalCost = total,
                   totalQuantity = num_or_zero qty\<rparr>)
             (filter (\<lambda>(vendor, total, qty). is_total_label vendor \<and> js_gt total (Fin 0))
                (map (\<lambda>r. (String_js E
                              (or_else (pick r [''Vendor'', ''Supplier'', ''Name'']) (Str [])),
                            Number_js E
                              (or_else (pick r [''TotalCost'', ''Amount'', ''Total'',
                                                ''Net Amount'']) (Num (Fin 0))),
                            Number_js E
                              (or_else (pick r [''Quantity'', ''Qty'']) (Num (Fin 0)))))
                   rows))))"

definition lineItemsCSV :: "js_engine \<Rightarrow> obj list \<Rightarrow> supplier_line list" where
  "lineItemsCSV E rows =
     filter (\<lambda>r. li_supplier r \<noteq> [] \<and> \<not> is_total_label (li_supplier r) \<and> li_item r \<noteq> []
                \<and> js_gt (li_totalCost r) (Fin 0))
       (map (\<lambda>r. \<lparr>li_supplier =
                    String_js E (or_else (pick r [''Vendor'', ''Supplier'', ''Name'']) (Str [])),
                  li_item =
                    String_js E (or_else (pick r [''Item'', ''Item Name'', ''Product'']) (Str [])),
                  li_totalCost =
                    Number_js E
                      (or_else (pick r [''TotalCost'', ''Amount'', ''Total'', ''Net Amount''])
                         (Num (Fin 0))),
                  li_quantity =
                    Number_js E (or_else (pick r [''Quantity'', ''Qty'']) (Num (Fin 0))),
                  li_date = pick r [''Date'']\<rparr>)
          rows)"

text \<open>The spreadsheet branch: one loop that pushes onto \<^verbatim>\<open>suppliers\<close> or onto
  \<^verbatim>\<open>lines\<close>. The object pushed onto \<^verbatim>\<open>lines\<close> has no \<^verbatim>\<open>date\<close> property.\<close>

definition supplierRowXLS ::
  "js_engine \<Rightarrow> int \<Rightarrow> int \<Rightarrow> int \<Rightarrow> int \<Rightarrow> supplier_total list \<times> supplier_line list
     \<Rightarrow> scalar list \<Rightarrow> supplier_total list \<times> supplier_line list" where
  "supplierRowXLS E iVendor iItem iTotal iQty acc r =
     (case acc of (suppliers', lines) \<Rightarrow>
      let vendor = String_js E (or_else (cell_at r iVendor) (Str []));
          item = String_js E (or_else (cell_at r iItem) (Str []));
          total = Number_js E (or_else (cell_at r iTotal) (Num (Fin 0)));
          qty = Number_js E (or_else (cell_at r iQty) (Num (Fin 0)))
      in if is_total_label vendor \<and> js_gt total (Fin 0) then
           (let name' = strip_total vendor
            in if js_gt total (Fin 0) \<and> \<not> is_internal_supplier name'
               then (suppliers' @ [\<lparr>supplier = name', st_totalCost = total,
                                    totalQuantity = num_or_zero qty\<rparr>], lines)
               else (suppliers', lines))
         else if vendor \<noteq> [] \<and> item \<noteq> [] \<and> js_gt total (Fin 0) then
           (suppliers', lines @ [\<lparr>li_supplier = vendor, li_item = item, li_totalCost = total,
                                  li_quantity = num_or_zero qty, li_date = None\<rparr>])
         else (suppliers', lines))"

definition supplierXLS :: "js_engine \<Rightarrow> grid \<Rightarrow> supplier_data" where
  "supplierXLS E ws =
     (let hdr = findHeaderRow E ws
                  [''vendor'', ''supplier'', ''item'', ''quantity'', ''amount'', ''total''];
          raw = sheet_from hdr ws;
          header = header_of E raw;
          iVendor = findCol header [''Vendor'', ''Supplier'', ''Name''];
          iItem = findCol header [''Item'', ''Item Name'', ''Product''];
          iTotal = findCol header [''TotalCost'', ''Amount'', ''Total'', ''Net Amount''];
          iQty = findCol header [''Quantity'', ''Qty''];
          acc = foldl (supplierRowXLS E iVendor iItem iTotal iQty) ([], []) (tl raw)
      in \<lparr>suppliers = sort_js (\<lambda>a b. js_sub (st_totalCost b) (st_totalCost a)) (fst acc),
          lineItems = snd acc\<rparr>)"

definition handleSupplier ::
  "js_engine \<Rightarrow> upload_file \<Rightarrow> app_state \<Rightarrow> ingest_error + app_state" where
  "handleSupplier E f st =
     (if endsWith (toLowerCase (name f)) ''.csv'' then
        (case papa_rows f of
           None \<Rightarrow> Inl ParseError
         | Some rows \<Rightarrow>
           Inr (st\<lparr>supplierData :=
                  \<lparr>suppliers = supplierTotalsCSV E rows, lineItems = lineItemsCSV E rows\<rparr>\<rparr>))
      else
        (case sheet_rows f of
           None \<Rightarrow> Inl ParseError
         | Some ws \<Rightarrow> Inr (st\<lparr>supplierData := supplierXLS E ws\<rparr>)))"

section \<open>Export: \<^verbatim>\<open>downloadCSV\<close>\<close>

text \<open>
  \<^verbatim>\<open>JSON.stringify\<close> on a scalar. A string is written between double quotes with the
  quote, the backslash and the control characters escaped; a finite number is written as
  its text, without quotes; a number that is not finite is written \<^verbatim>\<open>null\<close>.
\<close>

definition hex_digit :: "nat \<Rightarrow> char" where
  "hex_digit n = ''0123456789abcdef'' ! (n mod 16)"

definition json_escape_char :: "char \<Rightarrow> string" where
  "json_escape_char c =
     (if c = CHR 0x22 then [CHR 0x5C, CHR 0x22]
      else if c = CHR 0x5C then [CHR 0x5C, CHR 0x5C]
      else if c = CHR 0x08 then [CHR 0x5C, CHR ''b'']
      else if c = CHR 0x0C then [CHR 0x5C, CHR ''f'']
      else if c = CHR 0x0A then [CHR 0x5C, CHR ''n'']
      else if c = CHR 0x0D then [CHR 0x5C, CHR ''r'']
      else if c = CHR 0x09 then [CHR 0x5C, CHR ''t'']
      else if (of_char c :: nat) < 32
        then [CHR 0x5C, CHR ''u'', CHR ''0'', CHR ''0'',
              hex_digit (of_char c div 16), hex_digit (of_char c mod 16)]
      else [c])"

definition json_quote :: "string \<Rightarrow> string" where
  "json_quote s = [CHR 0x22] @ concat (map json_escape_char s) @ [CHR 0x22]"

fun JSON_stringify :: "js_engine \<Rightarrow> scalar \<Rightarrow> string" where
  "JSON_stringify E Null = ''null''"
| "JSON_stringify E (Bool b) = (if b then ''true'' else ''false'')"
| "JSON_stringify E (Num (Fin a)) = NumberToString E (Fin a)"
| "JSON_stringify E (Num n) = ''null''"
| "JSON_stringify E (Str s) = json_quote s"

text \<open>The text handed to the \<^verbatim>\<open>Blob\<close>; \<open>None\<close> when the function returns without
  building one.\<close>

definition csv_cell :: "js_engine \<Rightarrow> obj \<Rightarrow> string \<Rightarrow> string" where
  "csv_cell E r h = JSON_stringify E (nullish_or (map_of r h) (Str []))"

definition downloadCSV :: "js_engine \<Rightarrow> obj list \<Rightarrow> string option" where
  "downloadCSV E rows =
     (case rows of
        [] \<Rightarrow> None
      | r0 # _ \<Rightarrow>
        let headers = map fst r0
        in Some (join [CHR 0x0A]
                   (join '','' headers
                    # map (\<lambda>r. join '','' (map (csv_cell E r) headers)) rows)))"

text \<open>
  The rows handed to \<^verbatim>\<open>downloadCSV\<close> are derived items. The object of a derived item has
  the properties of the cost item, in the order \<^verbatim>\<open>handleCost\<close> writes them, followed by
  the eight that \<^verbatim>\<open>computed\<close> adds. The export button of the slow movers calls
  \<^verbatim>\<open>downloadCSV("slow_movers.csv", computed.slowMovers)\<close>.
\<close>

definition item_obj :: "derived_item \<Rightarrow> obj" where
  "item_obj it =
     [(''fullItem'', Str (fullItem it)), (''itemCode'', Str (itemCode it)),
      (''itemType'', Str (case itemType it of ReCert \<Rightarrow> ''ReCert'' | New \<Rightarrow> ''New'')),
      (''unitPrice'', Num (unitPrice it)), (''unitCost'', Num (unitCost it)),
      (''Quantity'', Num (Quantity it)), (''profitPerUnit'', Num (profitPerUnit it)),
      (''profitMargin'', Num (profitMargin it)), (''totalProfit'', Num (totalProfit it)),
      (''totalRevenue'', Num (totalRevenue it)), (''totalCost'', Num (totalCost it)),
      (''annualSales'', Num (annualSales it)), (''dailySales'', Num (dailySales it)),
      (''daysOfInventory'', Num (daysOfInventory it)),
      (''reorderPoint'', Num (reorderPoint it)),
      (''daysUntilStockout'', Num (daysUntilStockout it)), (''eoq'', Num (eoq it)),
      (''priceDelta'', Num (priceDelta it)), (''annualImpact'', Num (annualImpact it))]"

definition exportSlowMovers ::
  "js_engine \<Rightarrow> thresholds \<Rightarrow> cost_item list \<Rightarrow> sales_map \<Rightarrow> string option" where
  "exportSlowMovers E th cd m =
     (case computed th cd m of
        None \<Rightarrow> None
      | Some r \<Rightarrow> downloadCSV E (map item_obj (slowMovers r)))"


section \<open>The specification's formulas and example data\<close>

text \<open>
  The definitions of this section are not translations of the source. The first group
  writes down what the specification says, for comparison with the program; the second
  is the data of the examples.
\<close>

subsection \<open>The cascading sales lookup, as specified\<close>

text \<open>The first key of an ordered list that is present in the mapping wins.\<close>

fun first_present :: "sales_map \<Rightarrow> string list \<Rightarrow> sales_aggregate option" where
  "first_present m [] = None"
| "first_present m (k # ks) = (case m k of Some s \<Rightarrow> Some s | None \<Rightarrow> first_present m ks)"

text \<open>The bare item code, the code with \<^verbatim>\<open>-New\<close>, the code with \<^verbatim>\<open>-ReCert\<close>, the full
  label; annual sales is zero when none is present.\<close>

definition spec_annualSales :: "sales_map \<Rightarrow> cost_item \<Rightarrow> jsnum" where
  "spec_annualSales m item =
     (case first_present m
             [itemCode item, itemCode item @ ''-New'', itemCode item @ ''-ReCert'',
              fullItem item] of
        Some s \<Rightarrow> totalQtySold s
      | None \<Rightarrow> Fin 0)"

text \<open>An item none of whose four keys is the name of an inherited member.\<close>

definition own_keys_only :: "cost_item \<Rightarrow> bool" where
  "own_keys_only item =
     list_all (\<lambda>k. k \<notin> set object_prototype_keys)
       [itemCode item, itemCode item @ ''-New'', itemCode item @ ''-ReCert'', fullItem item]"

subsection \<open>The derived quantities, as specified\<close>











subsection \<open>The field picker, as specified\<close>





subsection \<open>The header resolver, as specified\<close>

text \<open>
  The text of a cell is the empty string for an empty cell. A row matches when at least
  half of the expected tokens, rounded up, occur among its lower-cased cell texts; the
  tokens are compared in lower case as well.
\<close>

definition cell_text :: "js_engine \<Rightarrow> scalar \<Rightarrow> string" where
  "cell_text E c = (case c of Null \<Rightarrow> [] | _ \<Rightarrow> String_js E (Some c))"

definition spec_header_match :: "js_engine \<Rightarrow> string list \<Rightarrow> scalar list \<Rightarrow> bool" where
  "spec_header_match E expected row =
     ((length expected + 1) div 2
        \<le> length (filter (\<lambda>h. toLowerCase h \<in> (\<lambda>c. toLowerCase (cell_text E c)) ` set row)
                    expected))"

subsection \<open>Reading an exported text back\<close>

text \<open>A value is quoted when it stands between two double quotes. The lines of a text
  are its pieces between line feeds.\<close>

definition is_quoted :: "string \<Rightarrow> bool" where
  "is_quoted s = (2 \<le> length s \<and> hd s = CHR 0x22 \<and> last s = CHR 0x22)"

fun split_lines :: "string \<Rightarrow> string list" where
  "split_lines [] = [[]]"
| "split_lines (c # cs) =
     (if c = CHR 0x0A then [] # split_lines cs
      else (case split_lines cs of [] \<Rightarrow> [[c]] | l # ls \<Rightarrow> (c # l) # ls))"

subsection \<open>Example data\<close>

text \<open>The state before any upload, as the \<^verbatim>\<open>useState\<close> calls initialise it.\<close>

definition initial_state :: app_state where
  "initial_state =
     \<lparr>costData = [], salesMap = Map.empty, customerData = [],
      supplierData = \<lparr>suppliers = [], lineItems = []\<rparr>\<rparr>"


definition widget :: cost_item where
  "widget =
     \<lparr>fullItem = ''ABC123 : Recert Widget'', itemCode = ''ABC123'', itemType = ReCert,
      unitPrice = Fin 100, unitCost = Fin 60, Quantity = Fin 10, profitPerUnit = Fin 40,
      profitMargin = Fin 40, totalProfit = Fin 400, totalRevenue = Fin 1000,
      totalCost = Fin 600\<rparr>"

definition widget_sales :: sales_map where
  "widget_sales =
     [''ABC123-ReCert'' \<mapsto>
        \<lparr>sa_item = ''ABC123-ReCert'', sa_description = [], totalQtySold = Fin 730,
         sa_totalRevenue = Fin 0\<rparr>]"

text \<open>A cost row whose item code is the name of an inherited member, and the cost item
  that \<^verbatim>\<open>handleCost\<close> builds from it.\<close>

definition ctor_row :: obj where
  "ctor_row =
     [(''Item'', Str ''constructor : Thing''), (''Average Item Rate'', Num (Fin 200)),
      (''Average of Est. Unit Cost'', Num (Fin 100)), (''Quantity'', Num (Fin 50))]"

definition ctor_item :: cost_item where
  "ctor_item =
     \<lparr>fullItem = ''constructor : Thing'', itemCode = ''constructor'', itemType = New,
      unitPrice = Fin 200, unitCost = Fin 100, Quantity = Fin 50, profitPerUnit = Fin 100,
      profitMargin = Fin 50, totalProfit = Fin 5000, totalRevenue = Fin 10000,
      totalCost = Fin 5000\<rparr>"

text \<open>An item in stock that never sold, and a cost row whose price is zero.\<close>

definition dormant :: cost_item where
  "dormant =
     \<lparr>fullItem = ''XYZ9 : Valve'', itemCode = ''XYZ9'', itemType = New,
      unitPrice = Fin 200, unitCost = Fin 100, Quantity = Fin 50, profitPerUnit = Fin 100,
      profitMargin = Fin 50, totalProfit = Fin 5000, totalRevenue = Fin 10000,
      totalCost = Fin 5000\<rparr>"

definition free_row :: obj where
  "free_row =
     [(''Item'', Str ''FREE1 : Sample''), (''Average Item Rate'', Num (Fin 0)),
      (''Average of Est. Unit Cost'', Num (Fin 5)), (''Quantity'', Num (Fin 3))]"

definition free_upload :: upload_file where
  "free_upload = \<lparr>name = ''cost.csv'', papa_rows = Some [free_row], sheet_rows = None\<rparr>"

text \<open>A sheet with two lines of title above the header row, and the expected header tokens
  of the sales handler.\<close>

definition titled_sheet :: grid where
  "titled_sheet =
     [[Str ''Sales by Item''],
      [],
      [Str ''Item'', Str ''Description'', Str ''Qty'', Str ''Amount''],
      [Str ''ABC123-ReCert'', Str ''Widget'', Num (Fin 730), Num (Fin 73000)]]"

definition sales_tokens :: "string list" where
  "sales_tokens = [''item'', ''qty'', ''quantity'', ''amount'', ''total'', ''description'']"

text \<open>An upload whose name ends in none of \<^verbatim>\<open>.csv\<close>, \<^verbatim>\<open>.xls\<close>, \<^verbatim>\<open>.xlsx\<close> and whose
  bytes the spreadsheet reader decodes, as it does for plain text.\<close>

definition text_upload :: upload_file where
  "text_upload = \<lparr>name = ''sales.txt'', papa_rows = None, sheet_rows = Some titled_sheet\<rparr>"

text \<open>One purchase-order line, once as the row object of the delimited-text reader and
  once as the grid of the spreadsheet reader: the same labels over the same values.\<close>

definition po_header :: "string list" where
  "po_header = [''Vendor'', ''Item'', ''Amount'', ''Quantity'', ''Date'']"

definition po_cells :: "scalar list" where
  "po_cells = [Str ''Acme'', Str ''Widget'', Num (Fin 100), Num (Fin 2), Str ''2024-01-15'']"

definition po_rows :: "obj list" where
  "po_rows = [zip po_header po_cells]"

definition po_sheet :: grid where
  "po_sheet = [map Str po_header, po_cells]"

text \<open>The export of the slow movers when the only cost item is the one that never sold.\<close>

definition dormant_rows :: "obj list" where
  "dormant_rows = [item_obj (deriveItem default_thresholds Map.empty dormant)]"

definition dormant_header :: string where
  "dormant_header =
     ''fullItem,itemCode,itemType,unitPrice,unitCost,Quantity,profitPerUnit,profitMargin,''
     @ ''totalProfit,totalRevenue,totalCost,annualSales,dailySales,daysOfInventory,''
     @ ''reorderPoint,daysUntilStockout,eoq,priceDelta,annualImpact''"

definition dormant_line :: string where
  "dormant_line =
     [CHR 0x22] @ ''XYZ9 : Valve'' @ [CHR 0x22] @ '','' @ [CHR 0x22] @ ''XYZ9'' @ [CHR 0x22]
     @ '','' @ [CHR 0x22] @ ''New'' @ [CHR 0x22]
     @ '',200,100,50,100,50,5000,10000,5000,0,0,null,0,null,0,0,0''"

section \<open>Lemmas about the model\<close>

subsection \<open>Sorting keeps the elements\<close>

lemma set_insert_by: "set (insert_by cmp x ys) = insert x (set ys)"
  by (induction ys) auto

lemma set_sort_js: "set (sort_js cmp xs) = set xs"
  by (induction xs) (simp_all add: sort_js_def set_insert_by)

lemma length_insert_by: "length (insert_by cmp x ys) = Suc (length ys)"
  by (induction ys) auto

lemma length_sort_js: "length (sort_js cmp xs) = length xs"
  by (induction xs) (simp_all add: sort_js_def length_insert_by)

lemma filter_imp:
  assumes "\<And>x. P x \<Longrightarrow> Q x"
  shows "set (filter P xs) \<subseteq> set (filter Q xs)"
    and "length (filter P xs) \<le> length (filter Q xs)"
proof -
  show "set (filter P xs) \<subseteq> set (filter Q xs)" using assms by auto
  show "length (filter P xs) \<le> length (filter Q xs)"
    using assms by (induction xs) auto
qed

subsection \<open>The fields of a derived item\<close>

lemma deriveItem_annualSales_read:
  "annualSales (deriveItem th m item) =
     (case salesLookup m item of
        Some (Own a) \<Rightarrow> totalQtySold a | Some Inherited \<Rightarrow> NaN | None \<Rightarrow> Fin 0)"
  by (simp add: deriveItem_def Let_def cost_item.extend_def)

lemma obj_read_own: "k \<notin> set object_prototype_keys \<Longrightarrow> obj_read m k = map_option Own (m k)"
  by (simp add: obj_read_def split: option.splits)

lemma deriveItem_annualSales:
  assumes "own_keys_only item"
  shows "annualSales (deriveItem th m item) = spec_annualSales m item"
proof -
  from assms have k: "itemCode item \<notin> set object_prototype_keys"
    "itemCode item @ ''-New'' \<notin> set object_prototype_keys"
    "itemCode item @ ''-ReCert'' \<notin> set object_prototype_keys"
    "fullItem item \<notin> set object_prototype_keys"
    by (simp_all add: own_keys_only_def)
  show ?thesis
    unfolding deriveItem_annualSales_read
    by (simp add: salesLookup_def Let_def obj_read_own[OF k(1)] obj_read_own[OF k(2)]
        obj_read_own[OF k(3)] obj_read_own[OF k(4)] spec_annualSales_def
        split: option.splits)
qed

lemma own_keys_examples: "own_keys_only widget" "own_keys_only dormant"
  by (simp_all add: own_keys_only_def object_prototype_keys_def widget_def dormant_def)

lemma annualSales_examples:
  "annualSales (deriveItem th m widget) = spec_annualSales m widget"
  "annualSales (deriveItem th m dormant) = spec_annualSales m dormant"
  by (rule deriveItem_annualSales, rule own_keys_examples)+


lemma computed_fields:
  assumes "computed th cd m = Some r"
  shows "items r = map (deriveItem th m) cd"
    and "slowMovers r =
       sort_js (\<lambda>a b. js_sub (totalCost b) (totalCost a))
         (filter (\<lambda>it. js_gt (totalCost it) (slowCost th)
                      \<and> (js_gt (daysOfInventory it) (slowDays th) \<or> js_eq (annualSales it) (Fin 0))
                      \<and> js_gt (Quantity it) (Fin 0)) (map (deriveItem th m) cd))"
    and "deadStock r =
       sort_js (\<lambda>a b. js_sub (totalCost b) (totalCost a))
         (filter (\<lambda>it. js_eq (annualSales it) (Fin 0) \<and> js_gt (totalCost it) (deadCost th)
                      \<and> js_gt (Quantity it) (Fin 0)) (map (deriveItem th m) cd))"
    and "criticalStockouts r =
       sort_js (\<lambda>a b. js_sub (daysUntilStockout a) (daysUntilStockout b))
         (filter (\<lambda>it. js_le (daysUntilStockout it) (Fin 30)
                      \<and> \<not> js_eq (daysUntilStockout it) PInf
                      \<and> js_gt (totalCost it) (Fin 1000)) (map (deriveItem th m) cd))"
    and "warningStockouts r =
       sort_js (\<lambda>a b. js_sub (daysUntilStockout a) (daysUntilStockout b))
         (filter (\<lambda>it. js_gt (daysUntilStockout it) (Fin 30)
                      \<and> js_le (daysUntilStockout it) (Fin 60)
                      \<and> js_gt (totalCost it) (Fin 500)) (map (deriveItem th m) cd))"
proof -
  from assms have ne: "cd \<noteq> []" by (auto simp: computed_def split: if_splits)
  from assms ne have r: "r = the (computed th cd m)" by simp
  show "items r = map (deriveItem th m) cd" unfolding r using ne by (simp add: computed_def Let_def)
  show "slowMovers r =
       sort_js (\<lambda>a b. js_sub (totalCost b) (totalCost a))
         (filter (\<lambda>it. js_gt (totalCost it) (slowCost th)
                      \<and> (js_gt (daysOfInventory it) (slowDays th) \<or> js_eq (annualSales it) (Fin 0))
                      \<and> js_gt (Quantity it) (Fin 0)) (map (deriveItem th m) cd))"
    unfolding r using ne by (simp add: computed_def Let_def)
  show "deadStock r =
       sort_js (\<lambda>a b. js_sub (totalCost b) (totalCost a))
         (filter (\<lambda>it. js_eq (annualSales it) (Fin 0) \<and> js_gt (totalCost it) (deadCost th)
                      \<and> js_gt (Quantity it) (Fin 0)) (map (deriveItem th m) cd))"
    unfolding r using ne by (simp add: computed_def Let_def)
  show "criticalStockouts r =
       sort_js (\<lambda>a b. js_sub (daysUntilStockout a) (daysUntilStockout b))
         (filter (\<lambda>it. js_le (daysUntilStockout it) (Fin 30)
                      \<and> \<not> js_eq (daysUntilStockout it) PInf
                      \<and> js_gt (totalCost it) (Fin 1000)) (map (deriveItem th m) cd))"
    unfolding r using ne by (simp add: computed_def Let_def)
  show "warningStockouts r =
       sort_js (\<lambda>a b. js_sub (daysUntilStockout a) (daysUntilStockout b))
         (filter (\<lambda>it. js_gt (daysUntilStockout it) (Fin 30)
                      \<and> js_le (daysUntilStockout it) (Fin 60)
                      \<and> js_gt (totalCost it) (Fin 500)) (map (deriveItem th m) cd))"
    unfolding r using ne by (simp add: computed_def Let_def)
qed

lemma js_gt_mono: "js_gt x s' \<Longrightarrow> js_ge s' s \<Longrightarrow> js_gt x s"
  by (cases x; cases s'; cases s) (auto simp: js_gt_def js_ge_def js_le_def)

lemma deriveItem_slowCost: "deriveItem (th\<lparr>slowCost := s'\<rparr>) m = deriveItem th m"
  by (rule ext) (simp add: deriveItem_def Let_def)

lemma deriveItem_fields:
  "dailySales (deriveItem th m item) = js_div (annualSales (deriveItem th m item)) (Fin 365)"
  "daysOfInventory (deriveItem th m item) =
     (if js_gt (dailySales (deriveItem th m item)) (Fin 0)
      then js_div (Quantity item) (dailySales (deriveItem th m item)) else PInf)"
  "daysUntilStockout (deriveItem th m item) = daysOfInventory (deriveItem th m item)"
  "reorderPoint (deriveItem th m item) =
     js_add (js_mul (dailySales (deriveItem th m item)) (leadTimeDays item))
       (safetyStock (dailySales (deriveItem th m item)) (leadTimeDays item))"
  "eoq (deriveItem th m item) =
     (if js_gt (js_mul (unitCost item) (holdingCostRate th)) (Fin 0)
         \<and> js_gt (annualSales (deriveItem th m item)) (Fin 0)
      then Math_round (Math_sqrt
             (js_div (js_mul (js_mul (Fin 2) (annualSales (deriveItem th m item))) (orderingCost th))
                (js_mul (unitCost item) (holdingCostRate th))))
      else Math_round (js_mul (js_div (annualSales (deriveItem th m item)) (Fin 12)) (Fin 3)))"
  by (simp_all add: deriveItem_def Let_def cost_item.extend_def)

lemma deriveItem_cost_fields:
  "totalCost (deriveItem th m item) = totalCost item"
  "Quantity (deriveItem th m item) = Quantity item"
  "cost_item.truncate (deriveItem th m item) = item"
  by (simp_all add: deriveItem_def Let_def cost_item.extend_def cost_item.truncate_def)

lemma no_sales_infinite:
  assumes "js_eq (annualSales (deriveItem th m item)) (Fin 0)"
  shows "daysOfInventory (deriveItem th m item) = PInf"
    and "daysUntilStockout (deriveItem th m item) = PInf"
  using assms by (simp_all add: deriveItem_fields js_eq_def js_gt_def)

lemma stockout_memD:
  assumes r: "computed th cd m = Some r"
  shows "d \<in> set (criticalStockouts r) \<Longrightarrow>
           d \<in> set (items r) \<and> js_le (daysUntilStockout d) (Fin 30)
           \<and> \<not> js_eq (daysUntilStockout d) PInf"
    and "d \<in> set (warningStockouts r) \<Longrightarrow>
           d \<in> set (items r) \<and> js_gt (daysUntilStockout d) (Fin 30)
           \<and> js_le (daysUntilStockout d) (Fin 60)"
    and "d \<in> set (deadStock r) \<Longrightarrow> d \<in> set (items r) \<and> js_eq (annualSales d) (Fin 0)"
  unfolding computed_fields[OF r] set_sort_js by simp_all

lemma items_no_sales:
  assumes r: "computed th cd m = Some r"
    and d: "d \<in> set (items r)" and z: "js_eq (annualSales d) (Fin 0)"
  shows "daysUntilStockout d = PInf"
proof -
  from d obtain item where "d = deriveItem th m item"
    unfolding computed_fields(1)[OF r] by auto
  with z show ?thesis by (simp add: no_sales_infinite(2))
qed

subsection \<open>The end-to-end scenario, evaluated\<close>











lemma costRow_zero_price:
  assumes "js_eq (unitPrice (costRow E row)) (Fin 0)"
  shows "profitMargin (costRow E row) = Fin 0" and "profitPerUnit (costRow E row) = Fin 0"
  using assms by (simp_all add: costRow_def Let_def js_eq_def js_gt_def)

lemma handleCost_costData:
  assumes "handleCost E f st = Inr st'"
  shows "\<exists>rows. costData st' = map (costRow E) rows"
  using assms by (auto simp: handleCost_def split: option.splits)

subsection \<open>The two loops of the picker and of \<^verbatim>\<open>findCol\<close>\<close>











subsection \<open>The loop of the header resolver\<close>

lemma header_threshold_nat: "header_threshold expected = int ((length expected + 1) div 2)"
proof -
  have "\<lceil>real n * (5 / 10)\<rceil> = int ((n + 1) div 2)" for n :: nat
  proof (cases "even n")
    case True
    then obtain k where "n = 2 * k" by (auto elim: evenE)
    then show ?thesis by simp
  next
    case False
    then obtain k where k: "n = 2 * k + 1" by (auto elim: oddE)
    have "\<lceil>real k + 1 / 2\<rceil> = int k + 1" by (simp add: ceiling_eq_iff)
    with k show ?thesis by (simp add: field_simps)
  qed
  then show ?thesis by (simp add: header_threshold_def)
qed

lemma cell_text_eq: "String_js E (Some (nullish_or (Some c) (Str []))) = cell_text E c"
  by (cases c) (simp_all add: cell_text_def)

lemma header_match_iff:
  "header_threshold expected \<le> int (header_hits E expected row)
     \<longleftrightarrow> spec_header_match E expected row"
  by (simp add: header_threshold_nat header_hits_def spec_header_match_def cell_text_eq
      Let_def image_def)

lemma findHeaderRow_loop_first:
  "findHeaderRow_loop E expected w i =
     (if list_ex (spec_header_match E expected) w
      then i + length (takeWhile (\<lambda>r. \<not> spec_header_match E expected r) w) else 0)"
  by (induction w arbitrary: i) (simp_all add: header_match_iff)

lemma takeWhile_stops: "x \<in> set xs \<Longrightarrow> \<not> P x \<Longrightarrow> length (takeWhile P xs) < length xs"
  by (induction xs) auto

subsection \<open>The uploads of the examples, evaluated\<close>

lemmas string_simps = toLowerCase_def lower_char_def trim_def is_space_def startsWith_def
  endsWith_def

lemma titled_sheet_header:
  "findHeaderRow E titled_sheet
     [''item'', ''qty'', ''quantity'', ''amount'', ''total'', ''description''] = 2"
  by (simp add: findHeaderRow_def titled_sheet_def header_hits_def header_threshold_def
      string_simps)

lemma titled_sheet_from:
  "sheet_from 2 titled_sheet =
     [[Str ''Item'', Str ''Description'', Str ''Qty'', Str ''Amount''],
      [Str ''ABC123-ReCert'', Str ''Widget'', Num (Fin 730), Num (Fin 73000)]]"
  by (simp add: sheet_from_def titled_sheet_def)

lemma titled_sheet_cols:
  "findCol [''Item'', ''Description'', ''Qty'', ''Amount'']
     [''Item'', ''Inventory Item'', ''Item Name'', ''Product''] = 0"
  "findCol [''Item'', ''Description'', ''Qty'', ''Amount'']
     [''Description'', ''ItemDesc'', ''Name'', ''Memo''] = 1"
  "findCol [''Item'', ''Description'', ''Qty'', ''Amount'']
     [''Qty'', ''QtySold'', ''Quantity'', ''Quantity Sold''] = 2"
  "findCol [''Item'', ''Description'', ''Qty'', ''Amount'']
     [''TotalRevenue'', ''Amount'', ''Total'', ''Net Amount'', ''Sales Amount''] = 3"
  by (simp_all add: findCol_def Let_def string_simps)

lemma handleSales_text_upload:
  "handleSales E text_upload initial_state =
     Inr (initial_state\<lparr>salesMap :=
            [''ABC123-ReCert'' \<mapsto>
               \<lparr>sa_item = ''ABC123-ReCert'', sa_description = ''Widget'',
                totalQtySold = Fin 730, sa_totalRevenue = Fin 73000\<rparr>]\<rparr>)"
proof -
  have ext: "\<not> endsWith (toLowerCase (name text_upload)) ''.csv''"
    by (simp add: text_upload_def string_simps)
  have hdr: "header_of E
        [[Str ''Item'', Str ''Description'', Str ''Qty'', Str ''Amount''],
         [Str ''ABC123-ReCert'', Str ''Widget'', Num (Fin 730), Num (Fin 73000)]]
      = [''Item'', ''Description'', ''Qty'', ''Amount'']"
    by (simp add: header_of_def or_else_def string_simps)
  have row: "salesRowXLS E 0 1 2 3 Map.empty
        [Str ''ABC123-ReCert'', Str ''Widget'', Num (Fin 730), Num (Fin 73000)] =
      [''ABC123-ReCert'' \<mapsto>
               \<lparr>sa_item = ''ABC123-ReCert'', sa_description = ''Widget'',
                totalQtySold = Fin 730, sa_totalRevenue = Fin 73000\<rparr>]"
    by (simp add: salesRowXLS_def salesAccumulate_def obj_read_def object_prototype_keys_def
        cell_at_def or_else_def num_truthy_def
        js_gt_def trim_def is_space_def Let_def)
  show ?thesis
    using ext
    by (simp add: handleSales_def text_upload_def titled_sheet_header titled_sheet_from hdr
        titled_sheet_cols row Let_def)
qed

lemma no_format_error:
  "handleSales E f st \<noteq> Inl (FormatError msg)"
  "handleCustomer E f st \<noteq> Inl (FormatError msg)"
  "handleSupplier E f st \<noteq> Inl (FormatError msg)"
  by (simp_all add: handleSales_def handleCustomer_def handleSupplier_def Let_def
      split: option.splits)

lemma handleCost_format_error:
  "\<not> endsWith (toLowerCase (name f)) ''.csv'' \<Longrightarrow> \<exists>msg. handleCost E f st = Inl (FormatError msg)"
  by (simp add: handleCost_def ensureExt_def)


lemma po_lower:
  "lowerKeys (zip po_header po_cells) =
     [(''vendor'', Str ''Acme''), (''item'', Str ''Widget''), (''amount'', Num (Fin 100)),
      (''quantity'', Num (Fin 2)), (''date'', Str ''2024-01-15'')]"
  by (simp add: po_header_def po_cells_def lowerKeys_def fromEntries_def obj_put_def
      is_array_index_def is_digit_def string_simps)

lemma po_pick:
  "pick (zip po_header po_cells) [''Vendor'', ''Supplier'', ''Name''] = Some (Str ''Acme'')"
  "pick (zip po_header po_cells) [''Item'', ''Item Name'', ''Product''] = Some (Str ''Widget'')"
  "pick (zip po_header po_cells) [''TotalCost'', ''Amount'', ''Total'', ''Net Amount'']
     = Some (Num (Fin 100))"
  "pick (zip po_header po_cells) [''Quantity'', ''Qty''] = Some (Num (Fin 2))"
  "pick (zip po_header po_cells) [''Date''] = Some (Str ''2024-01-15'')"
  by (simp_all add: pick_def po_lower string_simps)

lemma po_lineItemsCSV:
  "lineItemsCSV E po_rows =
     [\<lparr>li_supplier = ''Acme'', li_item = ''Widget'', li_totalCost = Fin 100,
       li_quantity = Fin 2, li_date = Some (Str ''2024-01-15'')\<rparr>]"
  by (simp add: lineItemsCSV_def po_rows_def po_pick or_else_def num_truthy_def
      is_total_label_def js_gt_def string_simps)

lemma po_suppliersCSV: "supplierTotalsCSV E po_rows = []"
  by (simp add: supplierTotalsCSV_def po_rows_def po_pick or_else_def num_truthy_def
      is_total_label_def js_gt_def sort_js_def string_simps)

lemma po_sheet_header:
  "findHeaderRow E po_sheet
     [''vendor'', ''supplier'', ''item'', ''quantity'', ''amount'', ''total''] = 0"
  by (simp add: findHeaderRow_def po_sheet_def po_header_def po_cells_def header_hits_def
      header_threshold_def string_simps)

lemma po_sheet_cols:
  "findCol po_header [''Vendor'', ''Supplier'', ''Name''] = 0"
  "findCol po_header [''Item'', ''Item Name'', ''Product''] = 1"
  "findCol po_header [''TotalCost'', ''Amount'', ''Total'', ''Net Amount''] = 2"
  "findCol po_header [''Quantity'', ''Qty''] = 3"
  by (simp_all add: findCol_def po_header_def Let_def string_simps)

lemma po_supplierXLS:
  "supplierXLS E po_sheet =
     \<lparr>suppliers = [],
      lineItems = [\<lparr>li_supplier = ''Acme'', li_item = ''Widget'', li_totalCost = Fin 100,
                    li_quantity = Fin 2, li_date = None\<rparr>]\<rparr>"
proof -
  have raw: "sheet_from 0 po_sheet = [map Str po_header, po_cells]"
    by (simp add: sheet_from_def po_sheet_def po_header_def po_cells_def)
  have hdr: "header_of E [map Str po_header, po_cells] = po_header"
    by (simp add: header_of_def po_header_def or_else_def string_simps)
  have row: "supplierRowXLS E 0 1 2 3 ([], []) po_cells =
      ([], [\<lparr>li_supplier = ''Acme'', li_item = ''Widget'', li_totalCost = Fin 100,
              li_quantity = Fin 2, li_date = None\<rparr>])"
    by (simp add: supplierRowXLS_def po_cells_def cell_at_def or_else_def num_truthy_def
        num_or_zero_def is_total_label_def js_gt_def Let_def string_simps)
  show ?thesis
    by (simp add: supplierXLS_def po_sheet_header raw hdr po_sheet_cols row Let_def
        sort_js_def)
qed

lemma supplierRowXLS_no_date:
  assumes "list_all (\<lambda>l. li_date l = None) (snd acc)"
  shows "list_all (\<lambda>l. li_date l = None) (snd (supplierRowXLS E a b c d acc r))"
  using assms by (cases acc) (simp add: supplierRowXLS_def Let_def)

lemma supplier_fold_no_date:
  "list_all (\<lambda>l. li_date l = None) (snd acc) \<Longrightarrow>
   list_all (\<lambda>l. li_date l = None) (snd (foldl (supplierRowXLS E a b c d) acc rs))"
  by (induction rs arbitrary: acc) (simp_all add: supplierRowXLS_no_date)

lemma supplierXLS_no_date: "list_all (\<lambda>l. li_date l = None) (lineItems (supplierXLS E ws))"
  by (simp add: supplierXLS_def Let_def supplier_fold_no_date)

subsection \<open>Lines and cells of the exported text\<close>

lemma split_lines_nonempty: "split_lines s \<noteq> []"
  by (induction s) (auto split: list.splits)

lemma split_lines_no_LF: "CHR 0x0A \<notin> set s \<Longrightarrow> split_lines s = [s]"
  by (induction s) auto

lemma split_lines_append:
  "CHR 0x0A \<notin> set s \<Longrightarrow> split_lines (s @ CHR 0x0A # t) = s # split_lines t"
  by (induction s) auto

lemma join_Cons: "join sep (x # xs) = (if xs = [] then x else x @ sep @ join sep xs)"
  by (cases xs) simp_all

lemma split_lines_join:
  assumes "xs \<noteq> []" and "\<forall>x \<in> set xs. CHR 0x0A \<notin> set x"
  shows "split_lines (join [CHR 0x0A] xs) = xs"
  using assms
proof (induction xs)
  case Nil
  then show ?case by simp
next
  case (Cons x xs)
  show ?case
  proof (cases "xs = []")
    case True
    with Cons.prems show ?thesis by (simp add: split_lines_no_LF)
  next
    case False
    with Cons have "split_lines (join [CHR 0x0A] xs) = xs" by simp
    with False Cons.prems show ?thesis by (simp add: join_Cons split_lines_append)
  qed
qed

lemma join_no_LF:
  assumes "\<forall>x \<in> set xs. CHR 0x0A \<notin> set x"
  shows "CHR 0x0A \<notin> set (join '','' xs)"
  using assms by (induction xs) (simp_all add: join_Cons)

lemma hex_digit_no_LF: "hex_digit n \<noteq> CHR 0x0A"
proof -
  have "n mod 16 < length ''0123456789abcdef''" by simp
  then have "hex_digit n \<in> set ''0123456789abcdef''"
    unfolding hex_digit_def by (rule nth_mem)
  then show ?thesis by auto
qed

lemma json_escape_char_no_LF: "CHR 0x0A \<notin> set (json_escape_char c)"
  using hex_digit_no_LF[of "of_char c div 16"] hex_digit_no_LF[of "of_char c mod 16"]
  by (auto simp: json_escape_char_def)

lemma json_quote_no_LF: "CHR 0x0A \<notin> set (json_quote s)"
  by (simp add: json_quote_def json_escape_char_no_LF)

lemma json_quote_quoted: "is_quoted (json_quote s)"
  by (simp add: is_quoted_def json_quote_def)

lemma JSON_stringify_no_LF:
  assumes "\<forall>n. CHR 0x0A \<notin> set (NumberToString E n)"
  shows "CHR 0x0A \<notin> set (JSON_stringify E v)"
proof (cases v)
  case (Num n)
  then show ?thesis using assms by (cases n) simp_all
qed (simp_all add: json_quote_no_LF)

lemma csv_cell_no_LF:
  assumes "\<forall>n. CHR 0x0A \<notin> set (NumberToString E n)"
  shows "CHR 0x0A \<notin> set (csv_cell E r h)"
  unfolding csv_cell_def using assms by (rule JSON_stringify_no_LF)


lemma digits_of_numeral:
  "digits_of (numeral k) n =
     (if n < 10 then [digit_char n]
      else digits_of (pred_numeral k) (n div 10) @ [digit_char (n mod 10)])"
  by (simp add: numeral_eq_Suc)

lemma digit_char_no_LF: "digit_char d \<noteq> CHR 0x0A"
proof -
  have "d mod 10 < length ''0123456789''" by simp
  then have "digit_char d \<in> set ''0123456789''"
    unfolding digit_char_def by (rule nth_mem)
  then show ?thesis by auto
qed

lemma digits_of_no_LF: "CHR 0x0A \<notin> set (digits_of fuel n)"
  by (induction fuel n rule: digits_of.induct)
     (simp_all add: digit_char_no_LF digit_char_no_LF[THEN not_sym])

lemma example_engine_no_LF: "CHR 0x0A \<notin> set (NumberToString example_engine n)"
  by (cases n) (simp_all add: example_engine_def show_nat_def digits_of_no_LF
      del: digits_of.simps)

subsection \<open>The export of a slow mover that never sold, evaluated\<close>

lemma dormant_derived:
  "deriveItem default_thresholds Map.empty dormant =
     cost_item.extend dormant
       \<lparr>annualSales = Fin 0, dailySales = Fin 0, daysOfInventory = PInf, reorderPoint = Fin 0,
        daysUntilStockout = PInf, eoq = Fin 0, priceDelta = Fin 0, annualImpact = Fin 0\<rparr>"
  by (simp add: deriveItem_def salesLookup_def obj_read_def object_prototype_keys_def Let_def
      js_gt_def dormant_def leadTimeDays_def
      safetyStock_def Math_max_def default_thresholds_def js_sub_def)

lemma dormant_slowMovers:
  assumes r: "computed default_thresholds [dormant] Map.empty = Some r"
  shows "slowMovers r = [deriveItem default_thresholds Map.empty dormant]"
proof -
  let ?d = "deriveItem default_thresholds Map.empty dormant"
  have f: "totalCost ?d = Fin 5000" "Quantity ?d = Fin 50" "annualSales ?d = Fin 0"
    by (simp_all only: deriveItem_cost_fields annualSales_examples)
       (simp_all add: spec_annualSales_def dormant_def)
  have "js_gt (totalCost ?d) (slowCost default_thresholds)
      \<and> (js_gt (daysOfInventory ?d) (slowDays default_thresholds)
           \<or> js_eq (annualSales ?d) (Fin 0))
      \<and> js_gt (Quantity ?d) (Fin 0)"
    unfolding f by (simp add: default_thresholds_def js_gt_def js_eq_def)
  then show ?thesis
    unfolding computed_fields(2)[OF r] by (simp add: sort_js_def)
qed

lemma dormant_obj:
  "item_obj (deriveItem default_thresholds Map.empty dormant) =
     [(''fullItem'', Str ''XYZ9 : Valve''), (''itemCode'', Str ''XYZ9''),
      (''itemType'', Str ''New''),
      (''unitPrice'', Num (Fin 200)), (''unitCost'', Num (Fin 100)),
      (''Quantity'', Num (Fin 50)), (''profitPerUnit'', Num (Fin 100)),
      (''profitMargin'', Num (Fin 50)), (''totalProfit'', Num (Fin 5000)),
      (''totalRevenue'', Num (Fin 10000)), (''totalCost'', Num (Fin 5000)),
      (''annualSales'', Num (Fin 0)), (''dailySales'', Num (Fin 0)),
      (''daysOfInventory'', Num PInf),
      (''reorderPoint'', Num (Fin 0)),
      (''daysUntilStockout'', Num PInf), (''eoq'', Num (Fin 0)),
      (''priceDelta'', Num (Fin 0)), (''annualImpact'', Num (Fin 0))]"
  by (simp only: dormant_derived) (simp add: item_obj_def cost_item.extend_def dormant_def)

lemma show_nat_values:
  "show_nat 0 = ''0''" "show_nat 50 = ''50''" "show_nat 100 = ''100''" "show_nat 200 = ''200''"
  "show_nat 5000 = ''5000''" "show_nat 10000 = ''10000''"
  by (simp_all add: show_nat_def digits_of_numeral digit_char_def)

lemma dormant_cells:
  "map (csv_cell example_engine (item_obj (deriveItem default_thresholds Map.empty dormant)))
     (map fst (item_obj (deriveItem default_thresholds Map.empty dormant))) =
   [[CHR 0x22] @ ''XYZ9 : Valve'' @ [CHR 0x22], [CHR 0x22] @ ''XYZ9'' @ [CHR 0x22],
    [CHR 0x22] @ ''New'' @ [CHR 0x22], ''200'', ''100'', ''50'', ''100'', ''50'', ''5000'',
    ''10000'', ''5000'', ''0'', ''0'', ''null'', ''0'', ''null'', ''0'', ''0'', ''0'']"
  unfolding dormant_obj
  by (simp add: csv_cell_def json_quote_def json_escape_char_def example_engine_def
      show_nat_values)

lemma dormant_export:
  "exportSlowMovers example_engine default_thresholds [dormant] Map.empty
     = downloadCSV example_engine dormant_rows"
proof -
  have h: "computed default_thresholds [dormant] Map.empty
             = Some (the (computed default_thresholds [dormant] Map.empty))"
    by (simp add: computed_def)
  show ?thesis
    unfolding exportSlowMovers_def
    by (subst h) (simp add: dormant_slowMovers[OF h] dormant_rows_def)
qed

lemma dormant_lines:
  "join '','' (map fst (hd dormant_rows)) = dormant_header"
  "map (\<lambda>r. join '','' (map (csv_cell example_engine r) (map fst (hd dormant_rows))))
     dormant_rows = [dormant_line]"
proof -
  show "join '','' (map fst (hd dormant_rows)) = dormant_header"
    by (simp add: dormant_rows_def dormant_obj dormant_header_def)
  show "map (\<lambda>r. join '','' (map (csv_cell example_engine r) (map fst (hd dormant_rows))))
     dormant_rows = [dormant_line]"
    by (simp add: dormant_rows_def dormant_cells dormant_line_def del: map_map)
qed

lemma dormant_text:
  "downloadCSV example_engine dormant_rows
     = Some (dormant_header @ [CHR 0x0A] @ dormant_line)"
proof -
  have "dormant_rows = hd dormant_rows # []" by (simp add: dormant_rows_def)
  then have "downloadCSV example_engine dormant_rows =
      Some (join [CHR 0x0A]
              (join '','' (map fst (hd dormant_rows))
               # map (\<lambda>r. join '','' (map (csv_cell example_engine r)
                                          (map fst (hd dormant_rows)))) dormant_rows))"
    by (simp add: downloadCSV_def dormant_rows_def Let_def del: map_map)
  then show ?thesis by (simp add: dormant_lines del: map_map)
qed

section \<open>The claims\<close>

subsection \<open>C1: the cascading sales lookup\<close>

text \<open>
  Claim C1. For every cost item the engine resolves annual sales by trying, in this order,
  the bare item code, the code followed by \<^verbatim>\<open>-New\<close>, the code followed by
  \<^verbatim>\<open>-ReCert\<close> and the full item label; the first key present in the sales mapping
  supplies \<^verbatim>\<open>totalQtySold\<close> as annual sales, and annual sales is 0 when none is present.

  The program does this for every item none of whose four keys is the name of a member
  that every object inherits, and not otherwise. The cost row of an item coded
  \<^verbatim>\<open>constructor\<close> is accepted by \<^verbatim>\<open>handleCost\<close>; with no sales loaded none of its keys
  is present in the mapping, yet \<^verbatim>\<open>salesMap["constructor"]\<close> is the inherited function,
  which is truthy and has no \<^verbatim>\<open>totalQtySold\<close>, and annual sales is \<open>NaN\<close>, not 0.
\<close>

theorem sales_lookup_inherited:
  "costRow E ctor_row = ctor_item
   \<and> first_present Map.empty
        [itemCode ctor_item, itemCode ctor_item @ ''-New'', itemCode ctor_item @ ''-ReCert'',
         fullItem ctor_item] = None
   \<and> spec_annualSales Map.empty ctor_item = Fin 0
   \<and> annualSales (deriveItem th Map.empty ctor_item) = NaN
   \<and> map annualSales (items (the (computed th [ctor_item] Map.empty))) = [NaN]
   \<and> (own_keys_only item \<longrightarrow>
        annualSales (deriveItem th m item) = spec_annualSales m item)"
proof -
  have lk: "lowerKeys ctor_row =
      [(''item'', Str ''constructor : Thing''), (''average item rate'', Num (Fin 200)),
       (''average of est. unit cost'', Num (Fin 100)), (''quantity'', Num (Fin 50))]"
    by (simp add: ctor_row_def lowerKeys_def fromEntries_def obj_put_def is_array_index_def
        toLowerCase_def lower_char_def trim_def is_space_def is_digit_def)
  have pk: "pick ctor_row [''Item''] = Some (Str ''constructor : Thing'')"
    "pick ctor_row [''Average Item Rate''] = Some (Num (Fin 200))"
    "pick ctor_row [''Average of Est. Unit Cost''] = Some (Num (Fin 100))"
    "pick ctor_row [''Quantity'', ''Qty''] = Some (Num (Fin 50))"
    by (simp_all add: pick_def lk toLowerCase_def lower_char_def trim_def is_space_def)
  have 1: "costRow E ctor_row = ctor_item"
    by (simp add: costRow_def Let_def pk or_else_def num_or_zero_def num_truthy_def
        ctor_item_def js_gt_def js_sub_def is_recert_def toLowerCase_def lower_char_def
        startsWith_def)
  have 2: "first_present Map.empty
        [itemCode ctor_item, itemCode ctor_item @ ''-New'', itemCode ctor_item @ ''-ReCert'',
         fullItem ctor_item] = None"
    by simp
  have 3: "spec_annualSales Map.empty ctor_item = Fin 0"
    by (simp add: spec_annualSales_def)
  have "salesLookup Map.empty ctor_item = Some Inherited"
    by (simp add: salesLookup_def obj_read_def object_prototype_keys_def ctor_item_def)
  then have 4: "annualSales (deriveItem th Map.empty ctor_item) = NaN"
    by (simp add: deriveItem_annualSales_read)
  have "computed th [ctor_item] Map.empty = Some (the (computed th [ctor_item] Map.empty))"
    by (simp add: computed_def)
  then have "items (the (computed th [ctor_item] Map.empty))
      = map (deriveItem th Map.empty) [ctor_item]"
    by (rule computed_fields(1))
  with 4 have 5: "map annualSales (items (the (computed th [ctor_item] Map.empty))) = [NaN]"
    by simp
  from 1 2 3 4 5 show ?thesis by (simp add: deriveItem_annualSales)
qed

theorem sales_lookup_inherited_witness:
  "own_keys_only widget
   \<and> annualSales (deriveItem default_thresholds widget_sales widget) = Fin 730"
proof -
  have k: "own_keys_only widget" by (rule own_keys_examples)
  have "spec_annualSales widget_sales widget = Fin 730"
    by (simp add: spec_annualSales_def widget_def widget_sales_def)
  with sales_lookup_inherited[of example_engine default_thresholds widget widget_sales] k
  show ?thesis by simp
qed

subsection \<open>C2: the derived quantities\<close>



subsection \<open>C3: the two supplier paths\<close>

text \<open>
  Claim C3. For supplier input whose rows carry the same field values, the delimited-text
  path and the spreadsheet path produce the same supplier totals and the same line items,
  and every line item of either path carries supplier, item, total cost, quantity and date.

  The program does not do this. On one purchase-order line with a date, the
  delimited-text path keeps the date and the spreadsheet path drops it; the spreadsheet
  path never produces a line item with a date, whatever the sheet.
\<close>

theorem supplier_paths_differ:
  "lineItemsCSV E po_rows =
     [\<lparr>li_supplier = ''Acme'', li_item = ''Widget'', li_totalCost = Fin 100,
       li_quantity = Fin 2, li_date = Some (Str ''2024-01-15'')\<rparr>]
   \<and> lineItems (supplierXLS E po_sheet) =
     [\<lparr>li_supplier = ''Acme'', li_item = ''Widget'', li_totalCost = Fin 100,
       li_quantity = Fin 2, li_date = None\<rparr>]
   \<and> list_all (\<lambda>l. li_date l = None) (lineItems (supplierXLS E ws))
   \<and> handleSupplier E \<lparr>name = ''po.csv'', papa_rows = Some po_rows, sheet_rows = None\<rparr> st
       \<noteq> handleSupplier E \<lparr>name = ''po.xlsx'', papa_rows = None, sheet_rows = Some po_sheet\<rparr> st"
proof -
  have "handleSupplier E \<lparr>name = ''po.csv'', papa_rows = Some po_rows, sheet_rows = None\<rparr> st
      = Inr (st\<lparr>supplierData :=
               \<lparr>suppliers = supplierTotalsCSV E po_rows, lineItems = lineItemsCSV E po_rows\<rparr>\<rparr>)"
    by (simp add: handleSupplier_def string_simps)
  moreover have
    "handleSupplier E \<lparr>name = ''po.xlsx'', papa_rows = None, sheet_rows = Some po_sheet\<rparr> st
      = Inr (st\<lparr>supplierData := supplierXLS E po_sheet\<rparr>)"
    by (simp add: handleSupplier_def string_simps)
  moreover have
    "st\<lparr>supplierData :=
         \<lparr>suppliers = supplierTotalsCSV E po_rows, lineItems = lineItemsCSV E po_rows\<rparr>\<rparr>
     \<noteq> st\<lparr>supplierData := supplierXLS E po_sheet\<rparr>"
  proof
    assume "st\<lparr>supplierData :=
         \<lparr>suppliers = supplierTotalsCSV E po_rows, lineItems = lineItemsCSV E po_rows\<rparr>\<rparr>
     = st\<lparr>supplierData := supplierXLS E po_sheet\<rparr>"
    then have "supplierData (st\<lparr>supplierData :=
         \<lparr>suppliers = supplierTotalsCSV E po_rows, lineItems = lineItemsCSV E po_rows\<rparr>\<rparr>)
     = supplierData (st\<lparr>supplierData := supplierXLS E po_sheet\<rparr>)" by (rule arg_cong)
    then show False by (simp add: po_lineItemsCSV po_supplierXLS)
  qed
  ultimately show ?thesis
    by (simp add: po_lineItemsCSV po_supplierXLS supplierXLS_no_date)
qed

subsection \<open>C4: the extension check\<close>

text \<open>
  Claim C4. For every ingestion call of every category, a file whose extension is not
  among those accepted for the upload slot makes the call fail with a format error before
  anything is parsed, and no dataset changes.

  The program does this for the cost slot only. The sales, customer and supplier handlers
  never report a format error: a name that does not end in \<^verbatim>\<open>.csv\<close> sends the file to the
  spreadsheet reader, and what that reader decodes replaces the dataset.
\<close>

theorem upload_extension_unchecked:
  "\<not> list_ex (endsWith (toLowerCase (name text_upload))) [''.csv'', ''.xls'', ''.xlsx'']
   \<and> handleSales E text_upload initial_state =
       Inr (initial_state\<lparr>salesMap :=
              [''ABC123-ReCert'' \<mapsto>
                 \<lparr>sa_item = ''ABC123-ReCert'', sa_description = ''Widget'',
                  totalQtySold = Fin 730, sa_totalRevenue = Fin 73000\<rparr>]\<rparr>)
   \<and> salesMap initial_state ''ABC123-ReCert'' = None
   \<and> handleSales E f st \<noteq> Inl (FormatError msg)
   \<and> handleCustomer E f st \<noteq> Inl (FormatError msg)
   \<and> handleSupplier E f st \<noteq> Inl (FormatError msg)
   \<and> handleCost E text_upload st =
       Inl (FormatError (''Expected .csv but got '' @ [CHR 0x22] @ ''sales.txt'' @ [CHR 0x22]))"
proof -
  have 1: "\<not> list_ex (endsWith (toLowerCase (name text_upload))) [''.csv'', ''.xls'', ''.xlsx'']"
    by (simp add: text_upload_def string_simps)
  have 2: "salesMap initial_state ''ABC123-ReCert'' = None"
    by (simp add: initial_state_def)
  have 3: "handleCost E text_upload st =
       Inl (FormatError (''Expected .csv but got '' @ [CHR 0x22] @ ''sales.txt'' @ [CHR 0x22]))"
    by (simp add: handleCost_def ensureExt_def text_upload_def string_simps)
  from 1 2 3 show ?thesis
    by (simp add: handleSales_text_upload no_format_error)
qed

subsection \<open>C5: the field picker\<close>


subsection \<open>C6: the header resolver\<close>

text \<open>
  Claim C6. For every grid and every list of expected header tokens, \<^verbatim>\<open>findHeaderRow\<close>
  returns the index of the first row, among the first \<open>min 30 (length rows)\<close> rows, whose
  lower-cased cells contain as exact values at least half of the expected tokens, rounded
  up; when no row of that window does, it returns 0.
\<close>

theorem header_row_first_match:
  "(let n = min 30 (length rows); j = findHeaderRow E rows expected in
      ((\<exists>i<n. spec_header_match E expected (rows ! i)) \<longrightarrow>
          j < n \<and> spec_header_match E expected (rows ! j)
          \<and> (\<forall>k<j. \<not> spec_header_match E expected (rows ! k)))
    \<and> ((\<forall>i<n. \<not> spec_header_match E expected (rows ! i)) \<longrightarrow> j = 0))"
proof -
  define n where "n = min 30 (length rows)"
  define w where "w = take n rows"
  define Q where "Q = spec_header_match E expected"
  define j where "j = findHeaderRow E rows expected"
  have lw: "length w = n" by (simp add: w_def n_def)
  have nth_w: "w ! i = rows ! i" if "i < n" for i using that by (simp add: w_def)
  have j: "j = (if list_ex Q w then length (takeWhile (\<lambda>r. \<not> Q r) w) else 0)"
    by (simp add: j_def findHeaderRow_def findHeaderRow_loop_first w_def n_def Q_def
        min.commute)
  have ex_iff: "list_ex Q w \<longleftrightarrow> (\<exists>i<n. Q (rows ! i))"
  proof
    assume "list_ex Q w"
    then obtain i where "i < length w" "Q (w ! i)" by (auto simp: list_ex_iff in_set_conv_nth)
    then show "\<exists>i<n. Q (rows ! i)" using lw nth_w by auto
  next
    assume "\<exists>i<n. Q (rows ! i)"
    then obtain i where i: "i < n" "Q (rows ! i)" by blast
    from i have "i < length w" by (simp add: lw)
    then have "w ! i \<in> set w" by (rule nth_mem)
    moreover from i have "Q (w ! i)" by (simp add: nth_w)
    ultimately show "list_ex Q w" unfolding list_ex_iff by blast
  qed
  have found: "j < n \<and> Q (rows ! j) \<and> (\<forall>k<j. \<not> Q (rows ! k))" if ex: "\<exists>i<n. Q (rows ! i)"
  proof -
    from ex have lx: "list_ex Q w" by (simp add: ex_iff)
    then have jj: "j = length (takeWhile (\<lambda>r. \<not> Q r) w)" by (simp add: j)
    from lx obtain x where "x \<in> set w" "Q x" by (auto simp: list_ex_iff)
    then have lt: "j < length w"
      unfolding jj by (intro takeWhile_stops[of x]) simp_all
    then have "\<not> \<not> Q (w ! j)" unfolding jj by (rule nth_length_takeWhile)
    then have qj: "Q (rows ! j)" using lt lw nth_w by simp
    have "\<not> Q (rows ! k)" if "k < j" for k
    proof -
      from that have "k < length (takeWhile (\<lambda>r. \<not> Q r) w)" by (simp add: jj)
      then have "takeWhile (\<lambda>r. \<not> Q r) w ! k \<in> set (takeWhile (\<lambda>r. \<not> Q r) w)"
        by (rule nth_mem)
      then have "\<not> Q (takeWhile (\<lambda>r. \<not> Q r) w ! k)" by (rule set_takeWhileD[THEN conjunct2])
      moreover have "takeWhile (\<lambda>r. \<not> Q r) w ! k = w ! k"
        using that by (simp add: jj takeWhile_nth)
      ultimately show ?thesis using that lt lw nth_w by simp
    qed
    with lt lw qj show ?thesis by simp
  qed
  have none: "j = 0" if "\<forall>i<n. \<not> Q (rows ! i)"
  proof -
    from that have "\<not> list_ex Q w" unfolding ex_iff by blast
    then show ?thesis by (simp add: j)
  qed
  from found none show ?thesis
    unfolding Let_def n_def[symmetric] j_def[symmetric] Q_def[symmetric] by blast
qed

theorem header_row_first_match_witness:
  "\<not> spec_header_match example_engine sales_tokens (titled_sheet ! 0)
   \<and> \<not> spec_header_match example_engine sales_tokens (titled_sheet ! 1)
   \<and> spec_header_match example_engine sales_tokens (titled_sheet ! 2)
   \<and> findHeaderRow example_engine titled_sheet sales_tokens = 2"
proof -
  let ?Q = "spec_header_match example_engine sales_tokens"
  let ?j = "findHeaderRow example_engine titled_sheet sales_tokens"
  have n: "min 30 (length titled_sheet) = 4" by (simp add: titled_sheet_def)
  have q0: "\<not> ?Q (titled_sheet ! 0)"
    by (simp add: spec_header_match_def titled_sheet_def sales_tokens_def cell_text_def
        toLowerCase_def lower_char_def)
  have q1: "\<not> ?Q (titled_sheet ! 1)"
    by (simp add: spec_header_match_def titled_sheet_def sales_tokens_def)
  have q2: "?Q (titled_sheet ! 2)"
    by (simp add: spec_header_match_def titled_sheet_def sales_tokens_def cell_text_def
        toLowerCase_def lower_char_def)
  have ex: "\<exists>i<4. ?Q (titled_sheet ! i)" using q2 by (intro exI[of _ 2]) simp
  from header_row_first_match[of titled_sheet example_engine sales_tokens] ex
  have j: "?j < 4" "?Q (titled_sheet ! ?j)" "\<forall>k<?j. \<not> ?Q (titled_sheet ! k)"
    unfolding Let_def n by blast+
  have "?j \<noteq> 0" using j(2) q0 by metis
  moreover have "?j \<noteq> 1" using j(2) q1 by metis
  moreover have "\<not> 2 < ?j" using j(3) q2 by blast
  ultimately have "?j = 2" by linarith
  with q0 q1 q2 show ?thesis by simp
qed

subsection \<open>C7: guarded divisions\<close>

text \<open>
  Claim C7. Every cost item that \<^verbatim>\<open>handleCost\<close> stores with a unit price of 0 has profit
  margin 0 and profit per unit 0; every derived item with annual sales 0 has days of
  inventory and days until stockout equal to positive infinity, never \<open>NaN\<close>.
\<close>

theorem division_guards:
  "(handleCost E f st = Inr st' \<longrightarrow>
      (\<forall>c \<in> set (costData st'). js_eq (unitPrice c) (Fin 0) \<longrightarrow>
         profitMargin c = Fin 0 \<and> profitPerUnit c = Fin 0))
   \<and> (computed th cd m = Some r \<longrightarrow>
      (\<forall>d \<in> set (items r). js_eq (annualSales d) (Fin 0) \<longrightarrow>
         daysOfInventory d = PInf \<and> daysUntilStockout d = PInf
         \<and> daysOfInventory d \<noteq> NaN \<and> daysUntilStockout d \<noteq> NaN))"
proof (intro conjI impI ballI)
  fix c assume h: "handleCost E f st = Inr st'" and c: "c \<in> set (costData st')"
    and z: "js_eq (unitPrice c) (Fin 0)"
  from handleCost_costData[OF h] c obtain row where "c = costRow E row" by auto
  with z show "profitMargin c = Fin 0" "profitPerUnit c = Fin 0"
    by (simp_all add: costRow_zero_price)
next
  fix d assume r: "computed th cd m = Some r" and d: "d \<in> set (items r)"
    and z: "js_eq (annualSales d) (Fin 0)"
  from d obtain item where "d = deriveItem th m item"
    unfolding computed_fields(1)[OF r] by auto
  with z show "daysOfInventory d = PInf" "daysUntilStockout d = PInf"
    by (simp_all add: no_sales_infinite)
  then show "daysOfInventory d \<noteq> NaN" "daysUntilStockout d \<noteq> NaN" by simp_all
qed

theorem division_guards_witness:
  "handleCost example_engine free_upload initial_state
     = Inr (initial_state\<lparr>costData := [costRow example_engine free_row]\<rparr>)
   \<and> js_eq (unitPrice (costRow example_engine free_row)) (Fin 0)
   \<and> profitMargin (costRow example_engine free_row) = Fin 0
   \<and> profitPerUnit (costRow example_engine free_row) = Fin 0
   \<and> computed default_thresholds [dormant] Map.empty
       = Some (the (computed default_thresholds [dormant] Map.empty))
   \<and> js_eq (annualSales (deriveItem default_thresholds Map.empty dormant)) (Fin 0)
   \<and> daysOfInventory (deriveItem default_thresholds Map.empty dormant) = PInf
   \<and> daysUntilStockout (deriveItem default_thresholds Map.empty dormant) = PInf"
proof -
  let ?c = "costRow example_engine free_row"
  let ?st = "initial_state\<lparr>costData := [?c]\<rparr>"
  let ?r = "the (computed default_thresholds [dormant] Map.empty)"
  let ?d = "deriveItem default_thresholds Map.empty dormant"
  have lk: "lowerKeys free_row =
      [(''item'', Str ''FREE1 : Sample''), (''average item rate'', Num (Fin 0)),
       (''average of est. unit cost'', Num (Fin 5)), (''quantity'', Num (Fin 3))]"
    by (simp add: free_row_def lowerKeys_def fromEntries_def obj_put_def is_array_index_def
        toLowerCase_def lower_char_def trim_def is_space_def is_digit_def)
  have pk: "pick free_row [''Average Item Rate''] = Some (Num (Fin 0))"
    "pick free_row [''Average of Est. Unit Cost''] = Some (Num (Fin 5))"
    by (simp_all add: pick_def lk toLowerCase_def lower_char_def trim_def is_space_def)
  have h1: "handleCost example_engine free_upload initial_state = Inr ?st"
    by (simp add: handleCost_def ensureExt_def free_upload_def endsWith_def toLowerCase_def
        lower_char_def pk)
  have c: "?c \<in> set (costData ?st)" by simp
  have z: "js_eq (unitPrice ?c) (Fin 0)"
    by (simp add: costRow_def Let_def pk num_or_zero_def num_truthy_def js_eq_def)
  have h2: "computed default_thresholds [dormant] Map.empty = Some ?r"
    by (simp add: computed_def)
  have d: "?d \<in> set (items ?r)" by (simp add: computed_fields(1)[OF h2])
  have z2: "js_eq (annualSales ?d) (Fin 0)"
    by (simp only: annualSales_examples) (simp add: spec_annualSales_def js_eq_def)
  from division_guards[of example_engine free_upload initial_state ?st
      default_thresholds "[dormant]" Map.empty ?r] h1 c z h2 d z2
  show ?thesis by blast
qed

subsection \<open>C8: the slow-mover set shrinks as \<^verbatim>\<open>slowCost\<close> grows\<close>

text \<open>
  Claim C8. For a fixed cost dataset, sales mapping and fixed values of the other five
  thresholds, raising \<^verbatim>\<open>slowCost\<close> never adds an item to the slow movers: the set
  computed with the larger threshold is a subset of the one computed with the smaller, and
  it is not longer.
\<close>

theorem slowCost_antitone:
  assumes r: "computed th costData' salesMap' = Some r"
    and r': "computed (th\<lparr>slowCost := s'\<rparr>) costData' salesMap' = Some r'"
    and ge: "js_ge s' (slowCost th)"
  shows "set (slowMovers r') \<subseteq> set (slowMovers r)
       \<and> length (slowMovers r') \<le> length (slowMovers r)"
proof -
  define P where "P = (\<lambda>s (it :: derived_item). js_gt (totalCost it) s
                \<and> (js_gt (daysOfInventory it) (slowDays th) \<or> js_eq (annualSales it) (Fin 0))
                \<and> js_gt (Quantity it) (Fin 0))"
  define its where "its = map (deriveItem th salesMap') costData'"
  define cmp where "cmp = (\<lambda>(a :: derived_item) (b :: derived_item). js_sub (totalCost b) (totalCost a))"
  have a: "slowMovers r = sort_js cmp (filter (P (slowCost th)) its)"
    unfolding P_def its_def cmp_def by (rule computed_fields(2)[OF r])
  have b: "slowMovers r' = sort_js cmp (filter (P s') its)"
    unfolding P_def its_def cmp_def using computed_fields(2)[OF r']
    by (simp add: deriveItem_slowCost)
  have imp: "P (slowCost th) it" if "P s' it" for it
  proof -
    from that have "js_gt (totalCost it) s'" by (simp add: P_def)
    then have "js_gt (totalCost it) (slowCost th)" using ge by (rule js_gt_mono)
    with that show ?thesis by (simp add: P_def)
  qed
  show ?thesis
    unfolding a b set_sort_js length_sort_js
    using filter_imp[of "P s'" "P (slowCost th)" its, OF imp] by blast
qed


theorem slowCost_antitone_witness:
  "computed default_thresholds [dormant] Map.empty
     = Some (the (computed default_thresholds [dormant] Map.empty))
   \<and> computed (default_thresholds\<lparr>slowCost := Fin 6000\<rparr>) [dormant] Map.empty
     = Some (the (computed (default_thresholds\<lparr>slowCost := Fin 6000\<rparr>) [dormant] Map.empty))
   \<and> js_ge (Fin 6000) (slowCost default_thresholds)
   \<and> set (slowMovers
            (the (computed (default_thresholds\<lparr>slowCost := Fin 6000\<rparr>) [dormant] Map.empty)))
       \<subseteq> set (slowMovers (the (computed default_thresholds [dormant] Map.empty)))
   \<and> length (slowMovers
            (the (computed (default_thresholds\<lparr>slowCost := Fin 6000\<rparr>) [dormant] Map.empty)))
       \<le> length (slowMovers (the (computed default_thresholds [dormant] Map.empty)))"
proof -
  have h: "computed default_thresholds [dormant] Map.empty
             = Some (the (computed default_thresholds [dormant] Map.empty))"
    by (simp add: computed_def)
  have h': "computed (default_thresholds\<lparr>slowCost := Fin 6000\<rparr>) [dormant] Map.empty
     = Some (the (computed (default_thresholds\<lparr>slowCost := Fin 6000\<rparr>) [dormant] Map.empty))"
    by (simp add: computed_def)
  have ge: "js_ge (Fin 6000) (slowCost default_thresholds)"
    by (simp add: default_thresholds_def js_ge_def js_le_def)
  from slowCost_antitone[OF h h' ge] h h' ge show ?thesis by blast
qed

subsection \<open>C9: the exported text\<close>

text \<open>
  Claim C9. For every non-empty list of result rows the export is one header line of field
  names followed by one line per row, in order, in which every scalar value is
  individually quoted.

  As stated this fails: \<^verbatim>\<open>JSON.stringify\<close> quotes strings only. In the export of the
  slow movers, the item that never sold is written with its cost as \<^verbatim>\<open>5000\<close> and its
  infinite day count as \<^verbatim>\<open>null\<close>, neither between quotes.
\<close>

theorem csv_number_unquoted:
  "exportSlowMovers example_engine default_thresholds [dormant] Map.empty
     = Some (dormant_header @ [CHR 0x0A] @ dormant_line)
   \<and> csv_cell example_engine (hd dormant_rows) ''totalCost'' = ''5000''
   \<and> \<not> is_quoted (csv_cell example_engine (hd dormant_rows) ''totalCost'')
   \<and> csv_cell example_engine (hd dormant_rows) ''daysOfInventory'' = ''null''
   \<and> \<not> is_quoted (csv_cell example_engine (hd dormant_rows) ''daysOfInventory'')"
  by (simp add: dormant_export dormant_text)
     (simp add: dormant_rows_def dormant_obj csv_cell_def example_engine_def show_nat_values
        is_quoted_def)

text \<open>
  Claim C9, amended. For every non-empty list of result rows whose field names contain no
  line feed, the export is one header line, the field names of the first row joined by
  commas, followed by one line per row, in order; in a row's line every string value is
  individually quoted (and escaped as JSON), a missing or empty value is written as two
  double quotes, and a number or a boolean is written without quotes: a finite number as
  its text, any other number as \<^verbatim>\<open>null\<close>. (The engine's text of a number contains no line
  feed.)
\<close>

theorem csv_export:
  assumes ne: "rows \<noteq> []"
    and hs: "\<forall>h \<in> set (map fst (hd rows)). CHR 0x0A \<notin> set h"
    and eng: "\<forall>n. CHR 0x0A \<notin> set (NumberToString E n)"
  shows "\<exists>out. downloadCSV E rows = Some out
      \<and> split_lines out =
          join '','' (map fst (hd rows))
          # map (\<lambda>r. join '','' (map (csv_cell E r) (map fst (hd rows)))) rows
      \<and> (\<forall>r h s. map_of r h = Some (Str s) \<longrightarrow>
             csv_cell E r h = json_quote s \<and> is_quoted (csv_cell E r h))
      \<and> (\<forall>r h. map_of r h = None \<or> map_of r h = Some Null \<longrightarrow>
             csv_cell E r h = [CHR 0x22, CHR 0x22])
      \<and> (\<forall>r h a. map_of r h = Some (Num (Fin a)) \<longrightarrow>
             csv_cell E r h = NumberToString E (Fin a))
      \<and> (\<forall>r h. map_of r h = Some (Num NaN) \<or> map_of r h = Some (Num PInf)
                 \<or> map_of r h = Some (Num NInf) \<longrightarrow> csv_cell E r h = ''null'')
      \<and> (\<forall>r h b. map_of r h = Some (Bool b) \<longrightarrow>
             csv_cell E r h = (if b then ''true'' else ''false''))"
proof -
  let ?headers = "map fst (hd rows)"
  let ?lines = "join '','' ?headers # map (\<lambda>r. join '','' (map (csv_cell E r) ?headers)) rows"
  have dl: "downloadCSV E rows = Some (join [CHR 0x0A] ?lines)"
    using ne by (cases rows) (simp_all add: downloadCSV_def Let_def)
  have h0: "CHR 0x0A \<notin> set (join '','' ?headers)"
    using hs by (intro join_no_LF) simp
  have rl: "CHR 0x0A \<notin> set (join '','' (map (csv_cell E r) ?headers))" for r
    using csv_cell_no_LF[OF eng] by (intro join_no_LF) simp
  have "\<forall>x \<in> set ?lines. CHR 0x0A \<notin> set x" using h0 rl by auto
  then have sl: "split_lines (join [CHR 0x0A] ?lines) = ?lines"
    by (intro split_lines_join) simp_all
  have str: "csv_cell E r h = json_quote s \<and> is_quoted (csv_cell E r h)"
    if "map_of r h = Some (Str s)" for r h s
    using that by (simp add: csv_cell_def json_quote_quoted)
  have emp: "csv_cell E r h = [CHR 0x22, CHR 0x22]"
    if "map_of r h = None \<or> map_of r h = Some Null" for r h
    using that by (auto simp: csv_cell_def json_quote_def)
  have num: "csv_cell E r h = NumberToString E (Fin a)"
    if "map_of r h = Some (Num (Fin a))" for r h a
    using that by (simp add: csv_cell_def)
  have inf: "csv_cell E r h = ''null''"
    if "map_of r h = Some (Num NaN) \<or> map_of r h = Some (Num PInf)
        \<or> map_of r h = Some (Num NInf)" for r h
    using that by (auto simp: csv_cell_def)
  have bool: "csv_cell E r h = (if b then ''true'' else ''false'')"
    if "map_of r h = Some (Bool b)" for r h b
    using that by (simp add: csv_cell_def)
  from dl sl str emp num inf bool show ?thesis by blast
qed


theorem csv_export_witness:
  "dormant_rows \<noteq> []
   \<and> downloadCSV example_engine dormant_rows
       = Some (the (downloadCSV example_engine dormant_rows))
   \<and> split_lines (the (downloadCSV example_engine dormant_rows))
       = [dormant_header, dormant_line]
   \<and> is_quoted (csv_cell example_engine (hd dormant_rows) ''itemCode'')"
proof -
  have ne: "dormant_rows \<noteq> []" by (simp add: dormant_rows_def)
  have hs: "\<forall>h \<in> set (map fst (hd dormant_rows)). CHR 0x0A \<notin> set h"
    by (simp add: dormant_rows_def dormant_obj)
  have eng: "\<forall>n. CHR 0x0A \<notin> set (NumberToString example_engine n)"
    by (simp add: example_engine_no_LF)
  have code: "map_of (hd dormant_rows) ''itemCode'' = Some (Str ''XYZ9'')"
    by (simp add: dormant_rows_def dormant_obj)
  from csv_export[OF ne hs eng] obtain out where
    t: "downloadCSV example_engine dormant_rows = Some out"
    and l: "split_lines out =
          join '','' (map fst (hd dormant_rows))
          # map (\<lambda>r. join '','' (map (csv_cell example_engine r) (map fst (hd dormant_rows))))
              dormant_rows"
    and q: "\<forall>r h s. map_of r h = Some (Str s) \<longrightarrow>
             csv_cell example_engine r h = json_quote s
             \<and> is_quoted (csv_cell example_engine r h)"
    by blast
  from q code have "is_quoted (csv_cell example_engine (hd dormant_rows) ''itemCode'')"
    by blast
  with ne t l show ?thesis by (simp add: dormant_lines del: map_map)
qed

subsection \<open>C10: items without sales are never stockout risks\<close>

text \<open>
  Claim C10. For every dataset and all thresholds, a derived item whose annual sales is 0
  is neither among the critical nor among the warning stockouts, because its days until
  stockout is infinite; hence no dead-stock item is reported as a stockout risk, and the
  critical and the warning sets are disjoint.
\<close>

theorem no_sales_no_stockout:
  assumes r: "computed th costData' salesMap' = Some r"
  shows "(\<forall>d \<in> set (items r). js_eq (annualSales d) (Fin 0) \<longrightarrow>
            d \<notin> set (criticalStockouts r) \<and> d \<notin> set (warningStockouts r))
       \<and> set (deadStock r) \<inter> (set (criticalStockouts r) \<union> set (warningStockouts r)) = {}
       \<and> set (criticalStockouts r) \<inter> set (warningStockouts r) = {}"
proof -
  have inf_out: "d \<notin> set (criticalStockouts r) \<and> d \<notin> set (warningStockouts r)"
    if "daysUntilStockout d = PInf" for d
  proof -
    have "\<not> js_le PInf (Fin 60)" by (simp add: js_le_def)
    moreover have "js_eq PInf PInf" by (simp add: js_eq_def)
    ultimately show ?thesis
      using stockout_memD(1)[OF r, of d] stockout_memD(2)[OF r, of d] that by metis
  qed
  have 1: "\<forall>d \<in> set (items r). js_eq (annualSales d) (Fin 0) \<longrightarrow>
            d \<notin> set (criticalStockouts r) \<and> d \<notin> set (warningStockouts r)"
    using items_no_sales[OF r] inf_out by blast
  have 2: "set (deadStock r) \<inter> (set (criticalStockouts r) \<union> set (warningStockouts r)) = {}"
    using stockout_memD(3)[OF r] 1 by blast
  have excl: "\<not> (js_le x (Fin 30) \<and> js_gt x (Fin 30))" for x
    by (simp add: js_le_def js_gt_def)
  have 3: "set (criticalStockouts r) \<inter> set (warningStockouts r) = {}"
    using stockout_memD(1)[OF r] stockout_memD(2)[OF r] excl by blast
  from 1 2 3 show ?thesis by blast
qed

theorem no_sales_no_stockout_witness:
  "computed default_thresholds [dormant] Map.empty
     = Some (the (computed default_thresholds [dormant] Map.empty))
   \<and> deriveItem default_thresholds Map.empty dormant
       \<in> set (items (the (computed default_thresholds [dormant] Map.empty)))
   \<and> js_eq (annualSales (deriveItem default_thresholds Map.empty dormant)) (Fin 0)
   \<and> deriveItem default_thresholds Map.empty dormant
       \<in> set (deadStock (the (computed default_thresholds [dormant] Map.empty)))
   \<and> deriveItem default_thresholds Map.empty dormant
       \<notin> set (criticalStockouts (the (computed default_thresholds [dormant] Map.empty)))
   \<and> deriveItem default_thresholds Map.empty dormant
       \<notin> set (warningStockouts (the (computed default_thresholds [dormant] Map.empty)))"
proof -
  let ?r = "the (computed default_thresholds [dormant] Map.empty)"
  let ?d = "deriveItem default_thresholds Map.empty dormant"
  have h: "computed default_thresholds [dormant] Map.empty = Some ?r"
    by (simp add: computed_def)
  have d: "?d \<in> set (items ?r)" by (simp add: computed_fields(1)[OF h])
  have z: "js_eq (annualSales ?d) (Fin 0)"
    by (simp only: annualSales_examples) (simp add: spec_annualSales_def js_eq_def)
  have dead: "?d \<in> set (deadStock ?r)"
    unfolding computed_fields(3)[OF h] set_sort_js using z
    by (simp add: deriveItem_cost_fields default_thresholds_def js_gt_def dormant_def)
  from no_sales_no_stockout[OF h] h d z dead show ?thesis by blast
qed

end
